theory Spec2Isabelle
  imports Complex_Main
begin

chapter \<open>Zeplin sync: a shallow embedding of the synchronisation core\<close>

text \<open>
  The development embeds the pure helpers of the two synchronisers (path sanitisation, the
  glob exclusion filter, colour formatting, image selection, the retry helper), the Zeplin
  client's error handling, the Logseq page, block and asset managers and the Logseq
  synchroniser over a model of the part of the Logseq graph they read and write, and the
  markdown builders of the Obsidian synchroniser.

  Conventions. A JavaScript string is a \<^typ>\<open>string\<close>; the character classes of the
  source (\<^verbatim>\<open>\s\<close>, line terminators, case folding under the \<^verbatim>\<open>i\<close> flag) are
  those of the ASCII range. An optional field is an \<^typ>\<open>'a option\<close>; a JavaScript
  truthiness test on an optional string is \<open>truthy\<close>. A rejected promise or a thrown value
  is the left summand of a sum type.
\<close>

section \<open>Definitions\<close>

subsection \<open>JavaScript string helpers\<close>

text \<open>The white space matched by \<^verbatim>\<open>\s\<close> and removed by \<^verbatim>\<open>String.prototype.trim\<close>.\<close>

definition is_space :: "char \<Rightarrow> bool" where
  "is_space c \<longleftrightarrow> c \<in> set [CHR 0x09, CHR 0x0A, CHR 0x0B, CHR 0x0C, CHR 0x0D, CHR 0x20]"

definition trim :: "string \<Rightarrow> string" where
  "trim s = rev (dropWhile is_space (rev (dropWhile is_space s)))"

text \<open>\<^verbatim>\<open>if (x)\<close> on an optional string: present and not empty.\<close>

definition truthy :: "string option \<Rightarrow> bool" where
  "truthy x = (case x of None \<Rightarrow> False | Some s \<Rightarrow> s \<noteq> [])"

subsection \<open>\<^verbatim>\<open>ObsidianSynchronizer.sanitizePath\<close>\<close>






subsection \<open>\<^verbatim>\<open>ObsidianSynchronizer.globToRegex\<close> and \<^verbatim>\<open>shouldExclude\<close>\<close>

text \<open>
  \<open>globToRegex\<close> builds the source text of a regular expression by three global
  replacements: a backslash before each of \<^verbatim>\<open>. + ^ $ { } ( ) | [ ] \\<close>, then
  \<^verbatim>\<open>.*\<close> for each \<^verbatim>\<open>*\<close>, then \<^verbatim>\<open>.\<close> for each \<^verbatim>\<open>?\<close>; the result is
  wrapped in \<^verbatim>\<open>^\<close> and \<^verbatim>\<open>$\<close> and compiled with the flag \<^verbatim>\<open>i\<close>.

  \<open>parse_regex\<close> reads such a source text back the way \<^verbatim>\<open>new RegExp\<close> does, for the
  syntax that can occur: an escaped special character is a literal, \<^verbatim>\<open>.*\<close> is a
  repetition of the dot, \<^verbatim>\<open>.\<close> is the dot, anything else is a literal. Any other
  syntax is refused. \<open>atoms_match\<close> is \<^verbatim>\<open>RegExp.prototype.test\<close> on an anchored
  pattern: literals compare after case canonicalisation, and the dot, compiled without the
  flag \<^verbatim>\<open>s\<close>, matches any character except a line terminator.
\<close>

definition regex_special :: "char \<Rightarrow> bool" where
  "regex_special c \<longleftrightarrow>
     c \<in> set [CHR ''.'', CHR ''+'', CHR ''^'', CHR ''$'', CHR ''{'', CHR ''}'', CHR ''('', CHR '')'',
                CHR ''|'', CHR ''['', CHR '']'', CHR 0x5C]"

definition escape_special :: "string \<Rightarrow> string" where
  "escape_special s = concat (map (\<lambda>c. if regex_special c then [CHR 0x5C, c] else [c]) s)"

definition replace_star :: "string \<Rightarrow> string" where
  "replace_star s = concat (map (\<lambda>c. if c = CHR ''*'' then ''.*'' else [c]) s)"

definition replace_question :: "string \<Rightarrow> string" where
  "replace_question s = map (\<lambda>c. if c = CHR ''?'' then CHR ''.'' else c) s"

definition globToRegex :: "string \<Rightarrow> string" where
  "globToRegex pattern =
     (let regexPattern = replace_question (replace_star (escape_special pattern))
      in ''^'' @ regexPattern @ ''$'')"

datatype atom = Lit char | Dot | DotStar

fun parse_atoms :: "string \<Rightarrow> atom list option" where
  "parse_atoms [] = None"
| "parse_atoms (c # cs) =
     (if c = CHR ''$'' then (if cs = [] then Some [] else None)
      else if c = CHR 0x5C then
        (case cs of
           [] \<Rightarrow> None
         | d # ds \<Rightarrow> if regex_special d then map_option ((#) (Lit d)) (parse_atoms ds) else None)
      else if c = CHR ''.'' then
        (case cs of
           [] \<Rightarrow> None
         | d # ds \<Rightarrow> if d = CHR ''*'' then map_option ((#) DotStar) (parse_atoms ds)
                     else map_option ((#) Dot) (parse_atoms cs))
      else if regex_special c \<or> c = CHR ''*'' \<or> c = CHR ''?'' then None
      else map_option ((#) (Lit c)) (parse_atoms cs))"

definition parse_regex :: "string \<Rightarrow> atom list option" where
  "parse_regex src =
     (case src of
        [] \<Rightarrow> None
      | c # cs \<Rightarrow> if c = CHR ''^'' then parse_atoms cs else None)"

text \<open>
  Line terminators of the byte range, and the canonicalisation of the flag \<^verbatim>\<open>i\<close>
  (the upper-case letter of a lower-case ASCII letter).
\<close>

definition line_terminator :: "char \<Rightarrow> bool" where
  "line_terminator c \<longleftrightarrow> c = CHR 0x0A \<or> c = CHR 0x0D"

definition canonicalize :: "char \<Rightarrow> char" where
  "canonicalize c =
     (if (97::nat) \<le> of_char c \<and> of_char c \<le> (122::nat) then char_of (of_char c - (32::nat)) else c)"

fun atoms_match :: "atom list \<Rightarrow> string \<Rightarrow> bool" where
  "atoms_match [] s = (s = [])"
| "atoms_match (Lit c # as) [] = False"
| "atoms_match (Lit c # as) (d # ds) = (canonicalize c = canonicalize d \<and> atoms_match as ds)"
| "atoms_match (Dot # as) [] = False"
| "atoms_match (Dot # as) (d # ds) = (\<not> line_terminator d \<and> atoms_match as ds)"
| "atoms_match (DotStar # as) [] = atoms_match as []"
| "atoms_match (DotStar # as) (d # ds) =
     (atoms_match as (d # ds) \<or> (\<not> line_terminator d \<and> atoms_match (DotStar # as) ds))"

definition regex_test :: "string \<Rightarrow> string \<Rightarrow> bool" where
  "regex_test src name = (case parse_regex src of None \<Rightarrow> False | Some as \<Rightarrow> atoms_match as name)"

text \<open>
  \<open>excludePatterns\<close> is the field the constructor fills from the settings text:
  split at new lines, each line trimmed, empty lines dropped.
\<close>

definition split_lines :: "string \<Rightarrow> string list" where
  "split_lines s =
     foldr (\<lambda>c acc. if c = CHR 0x0A then [] # acc else (c # hd acc) # tl acc) s [[]]"

definition parseExcludePatterns :: "string \<Rightarrow> string list" where
  "parseExcludePatterns text = filter (\<lambda>p. length p > 0) (map trim (split_lines text))"

definition shouldExclude :: "string list \<Rightarrow> string \<Rightarrow> bool" where
  "shouldExclude excludePatterns name =
     (if length excludePatterns = 0 then False
      else list_ex (\<lambda>pattern. regex_test (globToRegex pattern) name) excludePatterns)"


text \<open>
  The glob relation in the words of the specification: \<^verbatim>\<open>*\<close> stands for any run of
  characters, \<^verbatim>\<open>?\<close> for any single character, every other character for itself
  up to letter case, and the pattern has to use up the whole name.
\<close>

fun glob_match :: "string \<Rightarrow> string \<Rightarrow> bool" where
  "glob_match [] s = (s = [])"
| "glob_match (p # ps) [] = (p = CHR ''*'' \<and> glob_match ps [])"
| "glob_match (p # ps) (c # cs) =
     (if p = CHR ''*'' then glob_match ps (c # cs) \<or> glob_match (p # ps) cs
      else if p = CHR ''?'' then glob_match ps cs
      else canonicalize p = canonicalize c \<and> glob_match ps cs)"

text \<open>The atoms and the regular-expression body a glob pattern compiles to.\<close>

definition glob_atom :: "char \<Rightarrow> atom" where
  "glob_atom c = (if c = CHR ''*'' then DotStar else if c = CHR ''?'' then Dot else Lit c)"

definition regex_body :: "string \<Rightarrow> string" where
  "regex_body p = replace_question (replace_star (escape_special p))"

subsection \<open>\<^verbatim>\<open>rgbaToHex\<close> (the same text in both synchronisers)\<close>

text \<open>
  A channel is a JavaScript number; it is modelled as a \<^typ>\<open>real\<close> and the product
  \<open>n * 255\<close> is exact. \<^verbatim>\<open>Math.round\<close> rounds to the nearest integer, a tie towards
  plus infinity. \<^verbatim>\<open>toString(16)\<close> writes an integer in base sixteen with lower-case
  digits, a minus sign first for a negative one.
\<close>

definition Math_round :: "real \<Rightarrow> int" where
  "Math_round x = \<lfloor>x + 1 / 2\<rfloor>"

definition hex_digit :: "nat \<Rightarrow> char" where
  "hex_digit d = ''0123456789abcdef'' ! d"

function digits16 :: "nat \<Rightarrow> string" where
  "digits16 n = (if n < 16 then [hex_digit n] else digits16 (n div 16) @ [hex_digit (n mod 16)])"
  by pat_completeness auto
termination
  by (relation "measure id") auto

declare digits16.simps [simp del]

definition toString16 :: "int \<Rightarrow> string" where
  "toString16 i = (if i < 0 then CHR ''-'' # digits16 (nat (- i)) else digits16 (nat i))"

definition toHex :: "real \<Rightarrow> string" where
  "toHex n =
     (let hex = toString16 (Math_round (n * 255))
      in if length hex = 1 then CHR ''0'' # hex else hex)"

definition rgbaToHex :: "real \<Rightarrow> real \<Rightarrow> real \<Rightarrow> real \<Rightarrow> string" where
  "rgbaToHex r g b a =
     (let alpha = (if a < 1 then toHex a else [])
      in ''#'' @ toHex r @ toHex g @ toHex b @ alpha)"




subsection \<open>\<^verbatim>\<open>retry\<close> (utils/retry.ts)\<close>

text \<open>
  A thrown value or the reason of a rejected promise: an \<^verbatim>\<open>Error\<close> object with its
  message, any other value with the text \<^verbatim>\<open>String\<close> gives for it, or \<^verbatim>\<open>undefined\<close>.
  \<open>toError\<close> is \<^verbatim>\<open>error instanceof Error ? error : new Error(String(error))\<close>.
\<close>

datatype thrown = ErrorObj string | NonError string | Undefined

definition toError :: "thrown \<Rightarrow> thrown" where
  "toError error = (case error of ErrorObj m \<Rightarrow> ErrorObj m | NonError s \<Rightarrow> ErrorObj s
                     | Undefined \<Rightarrow> ErrorObj ''undefined'')"

text \<open>
  The options after the defaults have been merged in. \<^verbatim>\<open>onRetry\<close> is an observer:
  its calls are recorded, and it returns normally.
\<close>

record RetryOptions =
  maxAttempts :: nat
  initialDelay :: real
  maxDelay :: real
  backoffMultiplier :: real

definition DEFAULT_OPTIONS :: RetryOptions where
  "DEFAULT_OPTIONS = \<lparr>maxAttempts = 3, initialDelay = 1000, maxDelay = 10000, backoffMultiplier = 2\<rparr>"

text \<open>
  What a run of \<^verbatim>\<open>retry\<close> does: the value it resolves with or the error it rejects
  with, how often it invoked \<^verbatim>\<open>fn\<close>, the delays it slept, and the calls of
  \<^verbatim>\<open>onRetry\<close>. The function \<^verbatim>\<open>fn\<close> is given by the outcome of its first, second,
  ... invocation. The loop variable \<^verbatim>\<open>attempt\<close> starts at 1; the last branch is the
  \<^verbatim>\<open>throw lastError!\<close> after the loop.
\<close>

record 'a retry_run =
  outcome :: "thrown + 'a"
  invocations :: nat
  sleeps :: "real list"
  onRetry_calls :: "(nat \<times> thrown) list"

function retry_loop ::
  "(nat \<Rightarrow> thrown + 'a) \<Rightarrow> RetryOptions \<Rightarrow> nat \<Rightarrow> thrown option \<Rightarrow> nat \<Rightarrow> real list \<Rightarrow>
   (nat \<times> thrown) list \<Rightarrow> 'a retry_run" where
  "retry_loop fn opts attempt lastError calls slept notified =
     (if attempt \<le> maxAttempts opts then
        (case fn (Suc calls) of
           Inr v \<Rightarrow> \<lparr>outcome = Inr v, invocations = Suc calls, sleeps = slept, onRetry_calls = notified\<rparr>
         | Inl error \<Rightarrow>
             (let lastError' = toError error in
              if attempt = maxAttempts opts then
                \<lparr>outcome = Inl lastError', invocations = Suc calls, sleeps = slept,
                 onRetry_calls = notified\<rparr>
              else
                (let delay = min (initialDelay opts * backoffMultiplier opts ^ (attempt - 1))
                                 (maxDelay opts)
                 in retry_loop fn opts (attempt + 1) (Some lastError') (Suc calls)
                      (slept @ [delay]) (notified @ [(attempt, lastError')]))))
      else
        \<lparr>outcome = Inl (case lastError of None \<Rightarrow> Undefined | Some e \<Rightarrow> e),
         invocations = calls, sleeps = slept, onRetry_calls = notified\<rparr>)"
  by pat_completeness auto
termination
  by (relation "measure (\<lambda>(fn, opts, attempt, lastError, calls, slept, notified).
        Suc (maxAttempts opts) - attempt)") auto

declare retry_loop.simps [simp del]

definition retry :: "(nat \<Rightarrow> thrown + 'a) \<Rightarrow> RetryOptions \<Rightarrow> 'a retry_run" where
  "retry fn opts = retry_loop fn opts 1 None 0 [] []"

text \<open>Three functions to retry: two failures and then 7; always an error; always a string.\<close>

definition flaky :: "nat \<Rightarrow> thrown + nat" where
  "flaky k = (if k < 3 then Inl (ErrorObj ''busy'') else Inr 7)"

definition always_down :: "nat \<Rightarrow> thrown + nat" where
  "always_down k = Inl (ErrorObj ''down'')"

definition rejects_boom :: "nat \<Rightarrow> thrown + nat" where
  "rejects_boom k = Inl (NonError ''boom'')"

subsection \<open>Zeplin entities and \<^verbatim>\<open>extractImageUrl\<close>\<close>

text \<open>
  The interfaces of types/zeplin.ts. An optional member is an option. A component and a
  screen share the members of \<open>ZeplinItem\<close>; a screen adds its tags. The name of a
  section is optional because the Obsidian synchroniser overwrites it with the result of a
  map lookup.
\<close>

record Thumbnails =
  thumb_small :: "string option"
  thumb_medium :: "string option"
  thumb_large :: "string option"

record ZeplinAsset =
  asset_url :: "string option"
  asset_original_url :: "string option"
  asset_width :: nat
  asset_height :: nat
  asset_thumbnails :: "Thumbnails option"

record ZeplinSection =
  section_id :: string
  section_name :: "string option"
  section_description :: "string option"

record LatestVersion =
  version_image :: "ZeplinAsset option"

record ZeplinItem =
  item_id :: string
  item_name :: string
  item_description :: "string option"
  item_image :: "ZeplinAsset option"
  item_images :: "ZeplinAsset list option"
  item_latest_version :: "LatestVersion option"
  item_created :: nat
  item_updated :: nat
  item_section :: "ZeplinSection option"

record ZeplinComponent = ZeplinItem +
  component_source_id :: "string option"

record ZeplinScreen = ZeplinItem +
  screen_tags :: "string list option"

record ZeplinProject =
  project_id :: string
  project_name :: string
  project_platform :: string
  project_status :: string
  number_of_screens :: nat
  number_of_components :: nat
  number_of_text_styles :: nat
  number_of_colors :: nat

record ZeplinColor =
  color_id :: string
  color_name :: "string option"
  color_r :: real
  color_g :: real
  color_b :: real
  color_a :: real

record ZeplinTextStyle =
  style_id :: string
  style_name :: string
  font_family :: string
  font_size :: nat
  font_weight :: nat

text \<open>
  The optional chains of \<^verbatim>\<open>extractImageUrl\<close>: \<^verbatim>\<open>image?.thumbnails?.large\<close>,
  \<^verbatim>\<open>image?.thumbnails?.medium\<close>, \<^verbatim>\<open>image?.original_url\<close>, \<^verbatim>\<open>image?.url\<close>,
  and \<^verbatim>\<open>latest_version?.image\<close>.
\<close>

definition large_of :: "ZeplinAsset option \<Rightarrow> string option" where
  "large_of img = Option.bind (Option.bind img asset_thumbnails) thumb_large"

definition medium_of :: "ZeplinAsset option \<Rightarrow> string option" where
  "medium_of img = Option.bind (Option.bind img asset_thumbnails) thumb_medium"

definition original_url_of :: "ZeplinAsset option \<Rightarrow> string option" where
  "original_url_of img = Option.bind img asset_original_url"

definition url_of :: "ZeplinAsset option \<Rightarrow> string option" where
  "url_of img = Option.bind img asset_url"

definition latest_image :: "'a ZeplinItem_scheme \<Rightarrow> ZeplinAsset option" where
  "latest_image item = Option.bind (item_latest_version item) version_image"

text \<open>
  \<^verbatim>\<open>ComponentSynchronizer.extractImageUrl\<close> (Logseq): the chain of tests in the order
  of the source. Each test is a truthiness test, so an empty string counts as absent.
\<close>

definition extractImageUrl :: "'a ZeplinItem_scheme \<Rightarrow> string option" where
  "extractImageUrl item =
     (if truthy (large_of (item_image item)) then large_of (item_image item)
      else if truthy (original_url_of (item_image item)) then original_url_of (item_image item)
      else if truthy (medium_of (item_image item)) then medium_of (item_image item)
      else if truthy (url_of (item_image item)) then url_of (item_image item)
      else if truthy (large_of (latest_image item)) then large_of (latest_image item)
      else if truthy (original_url_of (latest_image item)) then original_url_of (latest_image item)
      else if truthy (url_of (latest_image item)) then url_of (latest_image item)
      else
        (case item_images item of
           Some (firstImage # rest) \<Rightarrow>
             if truthy (large_of (Some firstImage)) then large_of (Some firstImage)
             else if truthy (original_url_of (Some firstImage)) then original_url_of (Some firstImage)
             else if truthy (url_of (Some firstImage)) then url_of (Some firstImage)
             else None
         | _ \<Rightarrow> None))"

text \<open>
  \<^verbatim>\<open>ObsidianSynchronizer.extractImageUrl\<close>: the four tests on the primary image only.
\<close>

definition extractImageUrl_obsidian :: "'a ZeplinItem_scheme \<Rightarrow> string option" where
  "extractImageUrl_obsidian item =
     (if truthy (large_of (item_image item)) then large_of (item_image item)
      else if truthy (original_url_of (item_image item)) then original_url_of (item_image item)
      else if truthy (medium_of (item_image item)) then medium_of (item_image item)
      else if truthy (url_of (item_image item)) then url_of (item_image item)
      else None)"

text \<open>
  The contract in the words of the specification: the four candidates of an image in the
  order large thumbnail, original URL, medium thumbnail, generic URL; the primary image
  first, then the image of the latest version, then the first entry of the images array,
  each with the same four candidates; the first candidate present wins.
\<close>

definition candidates :: "ZeplinAsset option \<Rightarrow> string option list" where
  "candidates img = [large_of img, original_url_of img, medium_of img, url_of img]"

definition first_image :: "'a ZeplinItem_scheme \<Rightarrow> ZeplinAsset option" where
  "first_image item = (case item_images item of Some (firstImage # rest) \<Rightarrow> Some firstImage | _ \<Rightarrow> None)"

definition resolveImageUrl :: "'a ZeplinItem_scheme \<Rightarrow> string option" where
  "resolveImageUrl item =
     (case filter truthy (candidates (item_image item) @ candidates (latest_image item)
                            @ candidates (first_image item)) of
        [] \<Rightarrow> None
      | hit # rest \<Rightarrow> hit)"

text \<open>
  Sample entities: a screen without any image member, an asset with a medium thumbnail
  only, an asset with an original URL only.
\<close>

definition no_image_asset :: ZeplinAsset where
  "no_image_asset = \<lparr>asset_url = None, asset_original_url = None, asset_width = 0, asset_height = 0,
     asset_thumbnails = None\<rparr>"

definition bare_screen :: ZeplinScreen where
  "bare_screen = \<lparr>item_id = ''s1'', item_name = ''Home'', item_description = None,
     item_image = None, item_images = None, item_latest_version = None, item_created = 0,
     item_updated = 0, item_section = None, screen_tags = None\<rparr>"

definition medium_only :: ZeplinAsset where
  "medium_only = no_image_asset\<lparr>asset_thumbnails :=
     Some \<lparr>thumb_small = None, thumb_medium = Some ''https://cdn/m.png'', thumb_large = None\<rparr>\<rparr>"

definition original_only :: ZeplinAsset where
  "original_only = no_image_asset\<lparr>asset_original_url := Some ''https://cdn/o.png''\<rparr>"

subsection \<open>\<^verbatim>\<open>ZeplinClient\<close> (zeplin/client.ts)\<close>

text \<open>
  What the response interceptor sees of a failed request: the response, if one arrived,
  with its status and the \<^verbatim>\<open>message\<close> member of its body; whether the request was
  sent; the message of the error. \<open>handleError\<close> always throws; its value is the
  \<^verbatim>\<open>Error\<close> thrown.
\<close>

record AxiosError =
  error_response :: "(nat \<times> string option) option"
  error_request :: bool
  error_message :: string

definition handleError :: "AxiosError \<Rightarrow> thrown" where
  "handleError error =
     (case error_response error of
        Some (status, data_message) \<Rightarrow>
          (let message = (if truthy data_message then the data_message else error_message error)
           in if status = 401 then ErrorObj ''Invalid Zeplin API token. Please check your settings.''
              else if status = 403 then ErrorObj ''Access forbidden. Check your project permissions.''
              else if status = 404 then ErrorObj ''Resource not found.''
              else if status = 429 then ErrorObj ''Rate limit exceeded. Please try again later.''
              else ErrorObj (''Zeplin API error: '' @ message))
      | None \<Rightarrow>
          if error_request error
          then ErrorObj ''Unable to reach Zeplin API. Check your internet connection.''
          else ErrorObj (''Request failed: '' @ error_message error))"

text \<open>
  The remote service: for every request of the client either the failure the interceptor
  receives or the response data. Each client method performs its request and rethrows
  what the interceptor threw.
\<close>

record ZeplinApi =
  get_projects :: "AxiosError + ZeplinProject list"
  get_project :: "string \<Rightarrow> AxiosError + ZeplinProject"
  get_components :: "string \<Rightarrow> AxiosError + ZeplinComponent list"
  get_component :: "string \<Rightarrow> string \<Rightarrow> AxiosError + ZeplinComponent"
  get_screens :: "string \<Rightarrow> AxiosError + ZeplinScreen list"
  get_screen :: "string \<Rightarrow> string \<Rightarrow> AxiosError + ZeplinScreen"
  get_colors :: "string \<Rightarrow> AxiosError + ZeplinColor list"
  get_text_styles :: "string \<Rightarrow> AxiosError + ZeplinTextStyle list"
  get_sections :: "string \<Rightarrow> AxiosError + ZeplinSection list"

definition client_get :: "AxiosError + 'a \<Rightarrow> thrown + 'a" where
  "client_get response = (case response of Inl error \<Rightarrow> Inl (handleError error) | Inr d \<Rightarrow> Inr d)"


definition getProject :: "ZeplinApi \<Rightarrow> string \<Rightarrow> thrown + ZeplinProject" where
  "getProject api projectId = client_get (get_project api projectId)"

definition getComponents :: "ZeplinApi \<Rightarrow> string \<Rightarrow> thrown + ZeplinComponent list" where
  "getComponents api projectId = client_get (get_components api projectId)"

definition getComponent :: "ZeplinApi \<Rightarrow> string \<Rightarrow> string \<Rightarrow> thrown + ZeplinComponent" where
  "getComponent api projectId componentId = client_get (get_component api projectId componentId)"

definition getScreens :: "ZeplinApi \<Rightarrow> string \<Rightarrow> thrown + ZeplinScreen list" where
  "getScreens api projectId = client_get (get_screens api projectId)"

definition getScreen :: "ZeplinApi \<Rightarrow> string \<Rightarrow> string \<Rightarrow> thrown + ZeplinScreen" where
  "getScreen api projectId screenId = client_get (get_screen api projectId screenId)"

definition getColors :: "ZeplinApi \<Rightarrow> string \<Rightarrow> thrown + ZeplinColor list" where
  "getColors api projectId = client_get (get_colors api projectId)"

definition getTextStyles :: "ZeplinApi \<Rightarrow> string \<Rightarrow> thrown + ZeplinTextStyle list" where
  "getTextStyles api projectId = client_get (get_text_styles api projectId)"






subsection \<open>The Logseq graph, its managers and \<^verbatim>\<open>ComponentSynchronizer\<close>\<close>

text \<open>A non-negative integer as a template prints it, in decimal.\<close>

function digits10 :: "nat \<Rightarrow> string" where
  "digits10 n =
     (if n < 10 then [''0123456789'' ! n] else digits10 (n div 10) @ [''0123456789'' ! (n mod 10)])"
  by pat_completeness auto
termination
  by (relation "measure id") auto

declare digits10.simps [simp del]

text \<open>
  The Logseq graph as far as the plugin reads and writes it. A property value is a string
  or a number; the properties of a block or page are an association list in insertion
  order, and setting a key replaces its value in place or appends the pair, as assignment
  to a JavaScript object does. A uuid is a number; the host never returns an empty uuid,
  so the test \<^verbatim>\<open>if (existingBlockUuid)\<close> is the test for a uuid being there.
\<close>

datatype pval = PStr string | PNum nat

type_synonym props = "(string \<times> pval) list"

fun set_prop :: "string \<Rightarrow> pval \<Rightarrow> props \<Rightarrow> props" where
  "set_prop k v [] = [(k, v)]"
| "set_prop k v ((k', v') # ps) = (if k' = k then (k, v) # ps else (k', v') # set_prop k v ps)"

definition get_prop :: "props \<Rightarrow> string \<Rightarrow> pval option" where
  "get_prop ps k = map_of ps k"

record Block =
  block_uuid :: nat
  block_parent :: nat
  block_content :: string
  block_properties :: props

record Page =
  page_name :: string
  page_uuid :: nat
  page_properties :: props

record Graph =
  graph_pages :: "Page list"
  graph_blocks :: "Block list"
  graph_next :: nat
  graph_now :: nat

text \<open>
  The host interface \<^verbatim>\<open>logseq.Editor\<close> and \<^verbatim>\<open>logseq.DB\<close>, modelled on the graph:
  a page is found by its name, a block by its uuid; a new page gets a first empty block;
  a block is inserted as last child of an existing block and the call returns null when
  the parent does not exist; the Datalog query of \<^verbatim>\<open>findBlockByZeplinId\<close> returns the
  blocks whose property \<^verbatim>\<open>zeplin-id\<close> is the given string, oldest first (the id is
  spliced into the query text between double quotes; the model is for ids without a
  double quote or backslash, as the ids of Zeplin are). The host calls do not throw in
  this model. \<^verbatim>\<open>Date.now()\<close> reads the clock of the graph.
\<close>

definition Date_now :: "Graph \<Rightarrow> nat" where
  "Date_now g = graph_now g"

definition getPage :: "string \<Rightarrow> Graph \<Rightarrow> Page option" where
  "getPage name g = find (\<lambda>p. page_name p = name) (graph_pages g)"

definition getBlock :: "nat \<Rightarrow> Graph \<Rightarrow> Block option" where
  "getBlock uuid g = find (\<lambda>b. block_uuid b = uuid) (graph_blocks g)"

definition new_block :: "nat \<Rightarrow> string \<Rightarrow> props \<Rightarrow> Graph \<Rightarrow> Block \<times> Graph" where
  "new_block parent content properties g =
     (let b = \<lparr>block_uuid = graph_next g, block_parent = parent, block_content = content,
               block_properties = properties\<rparr>
      in (b, g\<lparr>graph_blocks := graph_blocks g @ [b], graph_next := Suc (graph_next g)\<rparr>))"

definition createPage :: "string \<Rightarrow> props option \<Rightarrow> Graph \<Rightarrow> Page option \<times> Graph" where
  "createPage name properties g =
     (let p = \<lparr>page_name = name, page_uuid = graph_next g,
               page_properties = (case properties of None \<Rightarrow> [] | Some ps \<Rightarrow> ps)\<rparr>;
          g1 = g\<lparr>graph_pages := graph_pages g @ [p], graph_next := Suc (graph_next g)\<rparr>
      in (Some p, snd (new_block (page_uuid p) [] [] g1)))"

definition getPageBlocksTree :: "string \<Rightarrow> Graph \<Rightarrow> Block list" where
  "getPageBlocksTree name g =
     (case getPage name g of
        None \<Rightarrow> []
      | Some p \<Rightarrow> filter (\<lambda>b. block_parent b = page_uuid p) (graph_blocks g))"

definition appendBlockInPage :: "string \<Rightarrow> string \<Rightarrow> Graph \<Rightarrow> Block option \<times> Graph" where
  "appendBlockInPage name content g =
     (case getPage name g of
        None \<Rightarrow> (None, g)
      | Some p \<Rightarrow> (case new_block (page_uuid p) content [] g of (b, g') \<Rightarrow> (Some b, g')))"

definition insertBlock :: "nat \<Rightarrow> string \<Rightarrow> props option \<Rightarrow> Graph \<Rightarrow> Block option \<times> Graph" where
  "insertBlock srcBlock content properties g =
     (case getBlock srcBlock g of
        None \<Rightarrow> (None, g)
      | Some parent \<Rightarrow>
          (case new_block srcBlock content (case properties of None \<Rightarrow> [] | Some ps \<Rightarrow> ps) g of
             (b, g') \<Rightarrow> (Some b, g')))"

definition host_updateBlock :: "nat \<Rightarrow> string \<Rightarrow> Graph \<Rightarrow> Graph" where
  "host_updateBlock uuid content g =
     g\<lparr>graph_blocks :=
         map (\<lambda>b. if block_uuid b = uuid then b\<lparr>block_content := content\<rparr> else b) (graph_blocks g)\<rparr>"

definition upsertBlockProperty :: "nat \<Rightarrow> string \<Rightarrow> pval \<Rightarrow> Graph \<Rightarrow> Graph" where
  "upsertBlockProperty uuid key v g =
     (case getBlock uuid g of
        Some block \<Rightarrow>
          g\<lparr>graph_blocks :=
              map (\<lambda>b. if block_uuid b = uuid
                        then b\<lparr>block_properties := set_prop key v (block_properties b)\<rparr> else b)
                (graph_blocks g)\<rparr>
      | None \<Rightarrow>
          g\<lparr>graph_pages :=
              map (\<lambda>p. if page_uuid p = uuid
                        then p\<lparr>page_properties := set_prop key v (page_properties p)\<rparr> else p)
                (graph_pages g)\<rparr>)"

definition query_zeplin_id :: "string \<Rightarrow> Graph \<Rightarrow> Block list" where
  "query_zeplin_id zeplinId g =
     filter (\<lambda>b. get_prop (block_properties b) ''zeplin-id'' = Some (PStr zeplinId)) (graph_blocks g)"

text \<open>
  \<^verbatim>\<open>LogseqBlocksManager\<close> (logseq/blocks.ts). \<open>createInput\<close> is \<open>createBlock\<close> applied
  to the members of a \<open>BlockCreateInput\<close>, \<open>createInputs\<close> the loop over the children;
  absent children are the empty list.
\<close>

datatype BlockCreateInput =
  BlockCreateInput (input_content: string) (input_properties: "props option")
    (input_children: "BlockCreateInput list")

fun createInput :: "nat \<Rightarrow> BlockCreateInput \<Rightarrow> Graph \<Rightarrow> nat option \<times> Graph"
  and createInputs :: "nat \<Rightarrow> BlockCreateInput list \<Rightarrow> Graph \<Rightarrow> Graph" where
  "createInput parentBlockUuid (BlockCreateInput content properties children) g =
     (case insertBlock parentBlockUuid content properties g of
        (None, g') \<Rightarrow> (None, g')
      | (Some block, g') \<Rightarrow> (Some (block_uuid block), createInputs (block_uuid block) children g'))"
| "createInputs parentBlockUuid [] g = g"
| "createInputs parentBlockUuid (child # rest) g =
     createInputs parentBlockUuid rest (snd (createInput parentBlockUuid child g))"

definition createBlock ::
  "nat \<Rightarrow> string \<Rightarrow> props option \<Rightarrow> BlockCreateInput list \<Rightarrow> Graph \<Rightarrow> nat option \<times> Graph" where
  "createBlock parentBlockUuid content properties children g =
     createInput parentBlockUuid (BlockCreateInput content properties children) g"

definition updateBlock :: "nat \<Rightarrow> string \<Rightarrow> Graph \<Rightarrow> bool \<times> Graph" where
  "updateBlock blockUuid content g = (True, host_updateBlock blockUuid content g)"

definition findBlockByZeplinId :: "string \<Rightarrow> Graph \<Rightarrow> nat option" where
  "findBlockByZeplinId zeplinId g =
     (case query_zeplin_id zeplinId g of [] \<Rightarrow> None | block # rest \<Rightarrow> Some (block_uuid block))"

definition upsertBlock ::
  "nat \<Rightarrow> string \<Rightarrow> string \<Rightarrow> props option \<Rightarrow> BlockCreateInput list \<Rightarrow> Graph \<Rightarrow> nat option \<times> Graph" where
  "upsertBlock parentBlockUuid content zeplinId properties children g =
     (case findBlockByZeplinId zeplinId g of
        Some existingBlockUuid \<Rightarrow>
          (let g1 = snd (updateBlock existingBlockUuid content g);
               g2 = (case properties of
                       None \<Rightarrow> g1
                     | Some ps \<Rightarrow>
                         (case getBlock existingBlockUuid g1 of
                            None \<Rightarrow> g1
                          | Some block \<Rightarrow>
                              upsertBlockProperty existingBlockUuid ''zeplin-updated''
                                (PNum (Date_now g1)) g1))
           in (Some existingBlockUuid, g2))
      | None \<Rightarrow>
          (let fullProperties =
                 set_prop ''zeplin-synced'' (PNum (Date_now g))
                   (set_prop ''zeplin-id'' (PStr zeplinId)
                      (case properties of None \<Rightarrow> [] | Some ps \<Rightarrow> ps))
           in createBlock parentBlockUuid content (Some fullProperties) children g))"

definition createBlockTree :: "nat \<Rightarrow> BlockCreateInput list \<Rightarrow> Graph \<Rightarrow> Graph" where
  "createBlockTree parentBlockUuid tree g = createInputs parentBlockUuid tree g"

text \<open>
  An asynchronous method that may throw: it takes the graph and returns the error thrown
  or the value, with the graph as it is then. \<open>bindE\<close> sequences two awaited steps; an
  error of the first skips the second.
\<close>

type_synonym 'a run = "Graph \<Rightarrow> (thrown + 'a) \<times> Graph"

definition returnE :: "'a \<Rightarrow> 'a run" where
  "returnE x g = (Inr x, g)"

definition throwE :: "thrown \<Rightarrow> 'a run" where
  "throwE e g = (Inl e, g)"

definition bindE :: "'a run \<Rightarrow> ('a \<Rightarrow> 'b run) \<Rightarrow> 'b run" where
  "bindE m f g = (case m g of (Inl e, g') \<Rightarrow> (Inl e, g') | (Inr x, g') \<Rightarrow> f x g')"

definition await_remote :: "thrown + 'a \<Rightarrow> 'a run" where
  "await_remote response g = (response, g)"

definition await_host :: "(Graph \<Rightarrow> 'a \<times> Graph) \<Rightarrow> 'a run" where
  "await_host op g = (case op g of (x, g') \<Rightarrow> (Inr x, g'))"

fun for_each :: "'a list \<Rightarrow> ('a \<Rightarrow> unit run) \<Rightarrow> unit run" where
  "for_each [] body = returnE ()"
| "for_each (x # xs) body = bindE (body x) (\<lambda>_. for_each xs body)"

definition when_run :: "bool \<Rightarrow> unit run \<Rightarrow> unit run" where
  "when_run c m = (if c then m else returnE ())"

text \<open>
  \<^verbatim>\<open>LogseqPagesManager\<close> (logseq/pages.ts).
\<close>

definition ensurePage :: "string \<Rightarrow> props option \<Rightarrow> nat run" where
  "ensurePage pageName properties g =
     (case getPage pageName g of
        None \<Rightarrow>
          (case createPage pageName properties g of
             (None, g') \<Rightarrow> (Inl (ErrorObj (''Failed to create page: '' @ pageName)), g')
           | (Some page, g') \<Rightarrow> (Inr (page_uuid page), g'))
      | Some page \<Rightarrow>
          (case properties of
             None \<Rightarrow> (Inr (page_uuid page), g)
           | Some ps \<Rightarrow>
               (Inr (page_uuid page),
                fold (\<lambda>(key, v). upsertBlockProperty (page_uuid page) key v) ps g)))"

definition getPageFirstBlockUuid :: "string \<Rightarrow> Graph \<Rightarrow> nat option \<times> Graph" where
  "getPageFirstBlockUuid pageName g =
     (case getPage pageName g of
        None \<Rightarrow> (None, g)
      | Some page \<Rightarrow>
          (case getPageBlocksTree pageName g of
             [] \<Rightarrow> (case appendBlockInPage pageName [] g of (block, g') \<Rightarrow> (map_option block_uuid block, g'))
           | block # rest \<Rightarrow> (Some (block_uuid block), g)))"

text \<open>
  \<^verbatim>\<open>LogseqAssetsManager\<close> (logseq/assets.ts) and the plugin configuration. The network
  gives, for an image URL, the error of the request or the response; \<open>base64\<close> is the
  encoding of the bytes. The file name \<open>buildImageFilename\<close> computes is only logged
  and is left out.
\<close>

datatype ImageStorage = Inline | Assets

record PluginConfig =
  defaultNamespace :: string
  imageStorage :: ImageStorage

record ImageResponse =
  response_data :: string
  response_content_type :: "string option"

record Network =
  http_get_image :: "string \<Rightarrow> thrown + ImageResponse"
  base64 :: "string \<Rightarrow> string"

definition downloadImage :: "Network \<Rightarrow> string \<Rightarrow> string option" where
  "downloadImage net url =
     (case http_get_image net url of
        Inl error \<Rightarrow> None
      | Inr response \<Rightarrow>
          (let mimeType = (if truthy (response_content_type response)
                           then the (response_content_type response) else ''image/png'');
               dataUrl = ''data:'' @ mimeType @ '';base64,'' @ base64 net (response_data response)
           in Some dataUrl))"

definition createImageMarkdown :: "string \<Rightarrow> string \<Rightarrow> string" where
  "createImageMarkdown imagePath altText =
     (if take 5 imagePath = ''data:'' then ''!['' @ altText @ '']('' @ imagePath @ '')''
      else ''!['' @ altText @ ''](../assets/'' @ imagePath @ '')'')"

text \<open>
  \<^verbatim>\<open>ComponentSynchronizer.downloadAndFormatImage\<close>: the body of the \<^verbatim>\<open>try\<close> block,
  then the \<^verbatim>\<open>catch\<close> handler with its fallback to the direct URL.
\<close>

definition downloadAndFormatImage_try ::
  "PluginConfig \<Rightarrow> Network \<Rightarrow> string \<Rightarrow> string \<Rightarrow> thrown + string option" where
  "downloadAndFormatImage_try config net imageUrl itemName =
     (if imageStorage config = Inline then
        (let dataUrl = downloadImage net imageUrl
         in if truthy dataUrl then Inr (Some (createImageMarkdown (the dataUrl) itemName))
            else Inr None)
      else Inr (Some (''!['' @ itemName @ '']('' @ imageUrl @ '')'')))"

definition downloadAndFormatImage ::
  "PluginConfig \<Rightarrow> Network \<Rightarrow> string \<Rightarrow> string \<Rightarrow> string option" where
  "downloadAndFormatImage config net imageUrl itemName =
     (case downloadAndFormatImage_try config net imageUrl itemName of
        Inr r \<Rightarrow> r
      | Inl error \<Rightarrow> Some (''!['' @ itemName @ '']('' @ imageUrl @ '')''))"

text \<open>
  \<^verbatim>\<open>ComponentSynchronizer\<close> (sync/synchronizer.ts). The children of a screen page are
  paired with the field they render.
\<close>

record Env =
  env_api :: ZeplinApi
  env_config :: PluginConfig
  env_net :: Network

definition createProjectStructure :: "Env \<Rightarrow> ZeplinProject \<Rightarrow> unit run" where
  "createProjectStructure env project =
     (let namespace = defaultNamespace (env_config env);
          projectPageName = namespace @ ''/'' @ project_name project
      in bindE (\<lambda>g. ensurePage projectPageName
                  (Some [(''zeplin-id'', PStr (project_id project)),
                         (''zeplin-type'', PStr ''project''),
                         (''zeplin-platform'', PStr (project_platform project)),
                         (''zeplin-synced'', PNum (Date_now g))]) g) (\<lambda>_.
         bindE (ensurePage (projectPageName @ ''/Components'') None) (\<lambda>_.
         bindE (ensurePage (projectPageName @ ''/Screens'') None) (\<lambda>_.
         bindE (ensurePage (projectPageName @ ''/Design Tokens'') None) (\<lambda>_.
         returnE ())))))"

definition buildComponentContent :: "ZeplinComponent \<Rightarrow> string" where
  "buildComponentContent component =
     (let section = (case item_section component of
                       Some s \<Rightarrow> '' ('' @ (case section_name s of Some n \<Rightarrow> n | None \<Rightarrow> ''undefined'') @ '')''
                     | None \<Rightarrow> [])
      in ''**'' @ item_name component @ ''**'' @ section)"

definition image_children ::
  "Env \<Rightarrow> 'a ZeplinItem_scheme \<Rightarrow> BlockCreateInput list" where
  "image_children env item =
     (case extractImageUrl item of
        Some imageUrl \<Rightarrow>
          (let imageContent = downloadAndFormatImage (env_config env) (env_net env) imageUrl (item_name item)
           in if truthy imageContent then [BlockCreateInput (the imageContent) (Some []) []] else [])
      | None \<Rightarrow> [])"

definition syncComponent :: "Env \<Rightarrow> ZeplinProject \<Rightarrow> ZeplinComponent \<Rightarrow> nat \<Rightarrow> unit run" where
  "syncComponent env project component parentBlockUuid =
     bindE (await_remote (getComponent (env_api env) (project_id project) (item_id component)))
       (\<lambda>fullComponent.
          (let content = buildComponentContent fullComponent;
               properties =
                 [(''zeplin-id'', PStr (item_id fullComponent)),
                  (''zeplin-type'', PStr ''component''),
                  (''zeplin-updated'', PNum (item_updated fullComponent)),
                  (''zeplin-url'', PStr (''https://app.zeplin.io/project/'' @ project_id project
                       @ ''/components?coid='' @ item_id fullComponent))];
               children =
                 (if truthy (item_description fullComponent)
                  then [BlockCreateInput (the (item_description fullComponent)) (Some []) []] else [])
                 @ image_children env fullComponent
           in bindE (await_host (upsertBlock parentBlockUuid content (item_id component)
                       (Some properties) children)) (\<lambda>_. returnE ())))"

definition syncComponents :: "Env \<Rightarrow> ZeplinProject \<Rightarrow> unit run" where
  "syncComponents env project =
     bindE (await_remote (getComponents (env_api env) (project_id project))) (\<lambda>components.
       (let componentsPageName =
              defaultNamespace (env_config env) @ ''/'' @ project_name project @ ''/Components''
        in bindE (await_host (getPageFirstBlockUuid componentsPageName)) (\<lambda>pageUuid.
             (case pageUuid of
                None \<Rightarrow> throwE (ErrorObj ''Failed to get components page first block'')
              | Some uuid \<Rightarrow>
                  for_each components (\<lambda>component. syncComponent env project component uuid)))))"

definition join_with :: "string \<Rightarrow> string list \<Rightarrow> string" where
  "join_with sep xs = (case xs of [] \<Rightarrow> [] | x # rest \<Rightarrow> x @ concat (map (\<lambda>y. sep @ y) rest))"

datatype field = TypeLabel | SectionName | Tags | DeepLink | Description | Image | Provenance

definition screen_children ::
  "Env \<Rightarrow> ZeplinProject \<Rightarrow> ZeplinScreen \<Rightarrow> (field \<times> BlockCreateInput) list" where
  "screen_children env project fullScreen =
     [(DeepLink, BlockCreateInput
         (''**Zeplin URL:** [View in Zeplin](https://app.zeplin.io/project/'' @ project_id project
            @ ''/screen/'' @ item_id fullScreen @ '')'') (Some []) [])]
     @ (if truthy (item_description fullScreen)
        then [(Description, BlockCreateInput
                 (''**Description:** '' @ the (item_description fullScreen)) (Some []) [])]
        else [])
     @ (case screen_tags fullScreen of
          Some (t # ts) \<Rightarrow>
            [(Tags, BlockCreateInput
                (''**Tags:** '' @ join_with '' '' (map (\<lambda>t. ''#'' @ t) (t # ts))) (Some []) [])]
        | _ \<Rightarrow> [])
     @ (case item_section fullScreen of
          Some s \<Rightarrow>
            [(SectionName, BlockCreateInput
                (''**Section:** '' @ (case section_name s of Some n \<Rightarrow> n | None \<Rightarrow> ''undefined''))
                (Some []) [])]
        | None \<Rightarrow> [])
     @ map (Pair Image) (image_children env fullScreen)"

definition syncScreenAsPage :: "Env \<Rightarrow> ZeplinProject \<Rightarrow> ZeplinScreen \<Rightarrow> nat \<Rightarrow> unit run" where
  "syncScreenAsPage env project screen indexPageUuid =
     bindE (await_remote (getScreen (env_api env) (project_id project) (item_id screen)))
       (\<lambda>fullScreen.
          (let screenPageName = defaultNamespace (env_config env) @ ''/'' @ project_name project
                 @ ''/Screens/'' @ item_name fullScreen
           in bindE (ensurePage screenPageName
                       (Some [(''zeplin-id'', PStr (item_id fullScreen)),
                              (''zeplin-type'', PStr ''screen''),
                              (''zeplin-updated'', PNum (item_updated fullScreen)),
                              (''zeplin-url'', PStr (''https://app.zeplin.io/project/''
                                 @ project_id project @ ''/screen/'' @ item_id fullScreen))]))
                (\<lambda>pageUuid.
              bindE (await_host (getPageFirstBlockUuid screenPageName)) (\<lambda>screenPageBlockUuid.
                (case screenPageBlockUuid of
                   None \<Rightarrow> throwE (ErrorObj (''Failed to get first block for screen page: ''
                              @ screenPageName))
                 | Some blockUuid \<Rightarrow>
                     bindE (await_host (createBlock indexPageUuid (''[['' @ screenPageName @ '']]'')
                              (Some [(''zeplin-id'', PStr (item_id fullScreen)),
                                     (''zeplin-type'', PStr ''screen'')]) [])) (\<lambda>_.
                     bindE (await_host (\<lambda>g. ((), createBlockTree blockUuid
                              (map snd (screen_children env project fullScreen)) g))) (\<lambda>_.
                     returnE ())))))))"

definition syncScreens :: "Env \<Rightarrow> ZeplinProject \<Rightarrow> unit run" where
  "syncScreens env project =
     bindE (await_remote (getScreens (env_api env) (project_id project))) (\<lambda>screens.
       (let screensIndexPageName =
              defaultNamespace (env_config env) @ ''/'' @ project_name project @ ''/Screens''
        in bindE (ensurePage screensIndexPageName None) (\<lambda>_.
           bindE (await_host (getPageFirstBlockUuid screensIndexPageName)) (\<lambda>indexPageUuid.
             (case indexPageUuid of
                None \<Rightarrow> throwE (ErrorObj ''Failed to get screens index page first block'')
              | Some uuid \<Rightarrow>
                  for_each screens (\<lambda>screen. syncScreenAsPage env project screen uuid))))))"

definition sync_colors :: "Env \<Rightarrow> ZeplinProject \<Rightarrow> nat \<Rightarrow> unit run" where
  "sync_colors env project pageUuid =
     bindE (await_remote (getColors (env_api env) (project_id project))) (\<lambda>colors.
     bindE (await_host (createBlock pageUuid (''## Colors ('' @ digits10 (length colors) @ '')'')
              None [])) (\<lambda>_.
     for_each colors (\<lambda>color.
       (let colorName = (if truthy (color_name color) then the (color_name color) else ''Unnamed'');
            hexColor = rgbaToHex (color_r color) (color_g color) (color_b color) (color_a color)
        in bindE (await_host (createBlock pageUuid (colorName @ '': `'' @ hexColor @ ''`'')
                    (Some [(''zeplin-id'', PStr (color_id color)), (''zeplin-type'', PStr ''color'')])
                    [])) (\<lambda>_. returnE ())))))"

definition sync_text_styles :: "Env \<Rightarrow> ZeplinProject \<Rightarrow> nat \<Rightarrow> unit run" where
  "sync_text_styles env project pageUuid =
     bindE (await_remote (getTextStyles (env_api env) (project_id project))) (\<lambda>textStyles.
     bindE (await_host (createBlock pageUuid
              (''## Text Styles ('' @ digits10 (length textStyles) @ '')'') None [])) (\<lambda>_.
     for_each textStyles (\<lambda>style.
       (let styleInfo = style_name style @ '': '' @ font_family style @ '' ''
              @ digits10 (font_size style) @ ''px / '' @ digits10 (font_weight style)
        in bindE (await_host (createBlock pageUuid styleInfo
                    (Some [(''zeplin-id'', PStr (style_id style)),
                           (''zeplin-type'', PStr ''text-style'')]) [])) (\<lambda>_. returnE ())))))"

definition syncDesignTokens :: "Env \<Rightarrow> ZeplinProject \<Rightarrow> unit run" where
  "syncDesignTokens env project =
     (let tokensPageName =
            defaultNamespace (env_config env) @ ''/'' @ project_name project @ ''/Design Tokens''
      in bindE (await_host (getPageFirstBlockUuid tokensPageName)) (\<lambda>pageUuid.
           (case pageUuid of
              None \<Rightarrow> throwE (ErrorObj ''Failed to get design tokens page first block'')
            | Some uuid \<Rightarrow>
                bindE (when_run (number_of_colors project > 0) (sync_colors env project uuid)) (\<lambda>_.
                when_run (number_of_text_styles project > 0) (sync_text_styles env project uuid)))))"

definition syncProject_body :: "Env \<Rightarrow> string \<Rightarrow> unit run" where
  "syncProject_body env projectId =
     bindE (await_remote (getProject (env_api env) projectId)) (\<lambda>project.
     bindE (createProjectStructure env project) (\<lambda>_.
     bindE (when_run (number_of_components project > 0) (syncComponents env project)) (\<lambda>_.
     bindE (when_run (number_of_screens project > 0) (syncScreens env project)) (\<lambda>_.
     syncDesignTokens env project))))"

definition syncProject :: "Env \<Rightarrow> string \<Rightarrow> unit run" where
  "syncProject env projectId g =
     (case syncProject_body env projectId g of
        (Inl error, g') \<Rightarrow> (Inl error, g')
      | (Inr u, g') \<Rightarrow> (Inr u, g'))"

subsection \<open>The markdown builders of \<^verbatim>\<open>ObsidianSynchronizer\<close>\<close>













fun logseq_rank :: "field \<Rightarrow> nat" where
  "logseq_rank DeepLink = 0"
| "logseq_rank Description = 1"
| "logseq_rank Tags = 2"
| "logseq_rank SectionName = 3"
| "logseq_rank Image = 4"
| "logseq_rank TypeLabel = 5"
| "logseq_rank Provenance = 6"

definition has_tags :: "ZeplinScreen \<Rightarrow> bool" where
  "has_tags screen = (case screen_tags screen of Some (t # ts) \<Rightarrow> True | _ \<Rightarrow> False)"


definition offline :: Network where
  "offline = \<lparr>http_get_image = (\<lambda>url. Inl (ErrorObj ''Network Error'')), base64 = (\<lambda>bytes. bytes)\<rparr>"



definition bare_component :: ZeplinComponent where
  "bare_component = \<lparr>item_id = ''c1'', item_name = ''Button'', item_description = None,
     item_image = None, item_images = None, item_latest_version = None, item_created = 0,
     item_updated = 0, item_section = None, component_source_id = None\<rparr>"



subsection \<open>Where a failure of a run comes from\<close>




text \<open>
  The names of the pages of a graph, and a step that never removes a page. The
  conditions under which a phase of a run meets no failure of the service: the components
  (the screens) are all fetched, the list and each item; the colours are fetched.
\<close>

definition page_names :: "Graph \<Rightarrow> string set" where
  "page_names g = set (map page_name (graph_pages g))"

definition keeps_pages :: "'a run \<Rightarrow> bool" where
  "keeps_pages m \<longleftrightarrow> (\<forall>g. page_names g \<subseteq> page_names (snd (m g)))"

definition components_ok :: "ZeplinApi \<Rightarrow> ZeplinProject \<Rightarrow> bool" where
  "components_ok api project \<longleftrightarrow>
     number_of_components project = 0
     \<or> (\<exists>components. get_components api (project_id project) = Inr components
          \<and> (\<forall>component \<in> set components.
                \<exists>full. get_component api (project_id project) (item_id component) = Inr full))"

definition screens_ok :: "ZeplinApi \<Rightarrow> ZeplinProject \<Rightarrow> bool" where
  "screens_ok api project \<longleftrightarrow>
     number_of_screens project = 0
     \<or> (\<exists>screens. get_screens api (project_id project) = Inr screens
          \<and> (\<forall>screen \<in> set screens.
                \<exists>full. get_screen api (project_id project) (item_id screen) = Inr full))"

definition colors_ok :: "ZeplinApi \<Rightarrow> ZeplinProject \<Rightarrow> bool" where
  "colors_ok api project \<longleftrightarrow>
     number_of_colors project = 0 \<or> (\<exists>colors. get_colors api (project_id project) = Inr colors)"

definition components_page :: "Env \<Rightarrow> ZeplinProject \<Rightarrow> string" where
  "components_page env project =
     defaultNamespace (env_config env) @ ''/'' @ project_name project @ ''/Components''"

definition tokens_page :: "Env \<Rightarrow> ZeplinProject \<Rightarrow> string" where
  "tokens_page env project =
     defaultNamespace (env_config env) @ ''/'' @ project_name project @ ''/Design Tokens''"

subsection \<open>Inputs that do not carry a remote id\<close>

text \<open>
  A block input, with all its descendants, that does not set the property
  \<^verbatim>\<open>zeplin-id\<close> to the given id. The children \<open>syncComponent\<close> builds are of this
  kind: their properties are empty.
\<close>

fun untagged :: "string \<Rightarrow> BlockCreateInput \<Rightarrow> bool" where
  "untagged zeplinId (BlockCreateInput content properties children) =
     (get_prop (case properties of None \<Rightarrow> [] | Some ps \<Rightarrow> ps) ''zeplin-id'' \<noteq> Some (PStr zeplinId)
      \<and> (\<forall>child \<in> set children. untagged zeplinId child))"

subsection \<open>Sample graphs, services and runs\<close>

text \<open>
  A graph in which the component \<^verbatim>\<open>c1\<close> has been synced once; a service with one project
  that has one screen and one colour, and two runs of \<open>syncProject\<close> on it, the second on
  the graph the first has left; a service with one component that has an image, synced
  with inline images while the image host is out of reach; a service that answers the
  project request with status 401, and one that answers the colours request with status
  429.
\<close>

definition synced_graph :: Graph where
  "synced_graph =
     \<lparr>graph_pages = [\<lparr>page_name = ''Zeplin/Shop/Components'', page_uuid = 1, page_properties = []\<rparr>],
      graph_blocks =
        [\<lparr>block_uuid = 2, block_parent = 1, block_content = [], block_properties = []\<rparr>,
         \<lparr>block_uuid = 3, block_parent = 2, block_content = ''**Button**'',
          block_properties = [(''zeplin-id'', PStr ''c1''), (''zeplin-synced'', PNum 100)]\<rparr>],
      graph_next = 4, graph_now = 200\<rparr>"

definition not_found :: AxiosError where
  "not_found = \<lparr>error_response = Some (404, None), error_request = True,
     error_message = ''Request failed with status code 404''\<rparr>"

definition shop_project :: ZeplinProject where
  "shop_project = \<lparr>project_id = ''p1'', project_name = ''Shop'', project_platform = ''web'',
     project_status = ''active'', number_of_screens = 1, number_of_components = 0,
     number_of_text_styles = 0, number_of_colors = 1\<rparr>"

definition brand_red :: ZeplinColor where
  "brand_red = \<lparr>color_id = ''c1'', color_name = Some ''Brand'', color_r = 1, color_g = 0,
     color_b = 0, color_a = 1\<rparr>"

definition shop_api :: ZeplinApi where
  "shop_api =
     \<lparr>get_projects = Inr [shop_project],
      get_project = (\<lambda>projectId. if projectId = ''p1'' then Inr shop_project else Inl not_found),
      get_components = (\<lambda>projectId. Inr []),
      get_component = (\<lambda>projectId componentId. Inl not_found),
      get_screens = (\<lambda>projectId. Inr [bare_screen]),
      get_screen = (\<lambda>projectId screenId. if screenId = ''s1'' then Inr bare_screen else Inl not_found),
      get_colors = (\<lambda>projectId. Inr [brand_red]),
      get_text_styles = (\<lambda>projectId. Inr []),
      get_sections = (\<lambda>projectId. Inr [])\<rparr>"

definition shop_env :: Env where
  "shop_env = \<lparr>env_api = shop_api,
     env_config = \<lparr>defaultNamespace = ''Zeplin'', imageStorage = Assets\<rparr>, env_net = offline\<rparr>"

definition empty_graph :: Graph where
  "empty_graph = \<lparr>graph_pages = [], graph_blocks = [], graph_next = 1, graph_now = 1000\<rparr>"

definition first_sync :: "(thrown + unit) \<times> Graph" where
  "first_sync = syncProject shop_env ''p1'' empty_graph"

definition second_sync :: "(thrown + unit) \<times> Graph" where
  "second_sync = syncProject shop_env ''p1'' (snd first_sync)"

definition pictured_button :: ZeplinComponent where
  "pictured_button = bare_component\<lparr>item_image := Some original_only\<rparr>"

definition button_project :: ZeplinProject where
  "button_project = \<lparr>project_id = ''p1'', project_name = ''Shop'', project_platform = ''web'',
     project_status = ''active'', number_of_screens = 0, number_of_components = 1,
     number_of_text_styles = 0, number_of_colors = 0\<rparr>"

definition button_api :: ZeplinApi where
  "button_api =
     \<lparr>get_projects = Inr [button_project],
      get_project = (\<lambda>projectId. Inr button_project),
      get_components = (\<lambda>projectId. Inr [pictured_button]),
      get_component = (\<lambda>projectId componentId. Inr pictured_button),
      get_screens = (\<lambda>projectId. Inr []),
      get_screen = (\<lambda>projectId screenId. Inl not_found),
      get_colors = (\<lambda>projectId. Inr []),
      get_text_styles = (\<lambda>projectId. Inr []),
      get_sections = (\<lambda>projectId. Inr [])\<rparr>"

definition inline_offline_button_env :: Env where
  "inline_offline_button_env = \<lparr>env_api = button_api,
     env_config = \<lparr>defaultNamespace = ''Zeplin'', imageStorage = Inline\<rparr>, env_net = offline\<rparr>"

definition inline_offline_sync :: "(thrown + unit) \<times> Graph" where
  "inline_offline_sync = syncProject inline_offline_button_env ''p1'' empty_graph"





section \<open>Theorems\<close>

subsection \<open>Path sanitisation\<close>















subsection \<open>The exclusion filter\<close>

lemma regex_body_Nil: "regex_body [] = []"
  by (simp add: regex_body_def replace_question_def replace_star_def escape_special_def)

lemma regex_body_Cons:
  "regex_body (c # cs) =
     (if regex_special c then [CHR 0x5C, c]
      else if c = CHR ''*'' then ''.*''
      else if c = CHR ''?'' then ''.''
      else [c]) @ regex_body cs"
  by (simp add: regex_body_def replace_question_def replace_star_def escape_special_def
      regex_special_def)

lemma hd_regex_body: "hd (regex_body p @ ''$'') \<noteq> CHR ''*''"
  by (cases p) (simp_all add: regex_body_Nil regex_body_Cons)

lemma parse_atoms_regex_body: "parse_atoms (regex_body p @ ''$'') = Some (map glob_atom p)"
proof (induction p)
  case Nil
  then show ?case by (simp add: regex_body_Nil)
next
  case (Cons c cs)
  let ?rest = "regex_body cs @ ''$''"
  have ne: "?rest \<noteq> []" by simp
  have hd: "hd ?rest \<noteq> CHR ''*''" by (rule hd_regex_body)
  consider (special) "regex_special c" | (star) "c = CHR ''*''" | (quest) "c = CHR ''?''"
    | (plain) "\<not> regex_special c" "c \<noteq> CHR ''*''" "c \<noteq> CHR ''?''" by blast
  then show ?case
  proof cases
    case special
    then have "c \<noteq> CHR ''*''" "c \<noteq> CHR ''?''" by (auto simp: regex_special_def)
    with special Cons.IH show ?thesis
      by (simp add: regex_body_Cons glob_atom_def)
  next
    case star
    with Cons.IH show ?thesis
      by (simp add: regex_body_Cons glob_atom_def regex_special_def)
  next
    case quest
    obtain d ds where r: "?rest = d # ds" using ne by (cases ?rest) auto
    with hd have "d \<noteq> CHR ''*''" by simp
    with quest Cons.IH r show ?thesis
      by (simp add: regex_body_Cons glob_atom_def regex_special_def)
  next
    case plain
    have "c \<noteq> CHR ''$''" "c \<noteq> CHR 0x5C" "c \<noteq> CHR ''.''"
      using plain(1) by (auto simp: regex_special_def)
    with plain Cons.IH show ?thesis
      by (simp add: regex_body_Cons glob_atom_def)
  qed
qed

lemma parse_regex_globToRegex: "parse_regex (globToRegex p) = Some (map glob_atom p)"
  using parse_atoms_regex_body [of p]
  by (simp add: parse_regex_def globToRegex_def regex_body_def)

lemma atoms_match_glob:
  "\<forall>c \<in> set s. \<not> line_terminator c \<Longrightarrow> atoms_match (map glob_atom p) s = glob_match p s"
  by (induction p s rule: glob_match.induct) (auto simp: glob_atom_def)

lemma regex_test_glob:
  "\<forall>c \<in> set name. \<not> line_terminator c \<Longrightarrow>
   regex_test (globToRegex p) name = glob_match p name"
  by (simp add: regex_test_def parse_regex_globToRegex atoms_match_glob)

lemma shouldExclude_glob:
  "\<forall>c \<in> set name. \<not> line_terminator c \<Longrightarrow>
   shouldExclude P name \<longleftrightarrow> (\<exists>p \<in> set P. glob_match p name)"
  by (cases P) (auto simp: shouldExclude_def list_ex_iff regex_test_glob)

lemma no_patterns_configured: "shouldExclude (parseExcludePatterns []) name = False"
  by (simp add: parseExcludePatterns_def split_lines_def trim_def shouldExclude_def)

lemma shouldExclude_empty: "shouldExclude [] name = False"
  by (simp add: shouldExclude_def)

text \<open>
  Claim C2. The exclusion filter is to return true exactly when some pattern, read as an
  anchored case-insensitive glob in which \<^verbatim>\<open>*\<close> matches any run of characters,
  matches the whole name. The compiled dot does not match a line terminator: for the
  pattern \<^verbatim>\<open>*\<close> and the three-character name \<^verbatim>\<open>a\<close>, line feed, \<^verbatim>\<open>b\<close> the
  glob relation holds and the filter answers false. (On names without a line terminator
  filter and glob relation agree, \<open>shouldExclude_glob\<close>, and the empty pattern list
  excludes nothing, \<open>shouldExclude_empty\<close>.)
\<close>

theorem shouldExclude_line_feed_name:
  "glob_match ''*'' [CHR ''a'', CHR 0x0A, CHR ''b'']
   \<and> shouldExclude [''*''] [CHR ''a'', CHR 0x0A, CHR ''b''] = False"
  by (simp add: shouldExclude_def regex_test_def parse_regex_globToRegex glob_atom_def
      line_terminator_def)

subsection \<open>Colour formatting\<close>













subsection \<open>Retry with exponential backoff\<close>

lemma retry_loop_first_success:
  assumes "fn k = Inr v" and "\<forall>j. a \<le> j \<and> j < k \<longrightarrow> isl (fn j)"
    and "a \<le> k" and "k \<le> maxAttempts opts" and "1 \<le> a"
  shows "retry_loop fn opts a le (a - 1) sl nt =
           \<lparr>outcome = Inr v, invocations = k,
            sleeps = sl @ map (\<lambda>i. min (initialDelay opts * backoffMultiplier opts ^ (i - 1))
                                         (maxDelay opts)) [a..<k],
            onRetry_calls = nt @ map (\<lambda>i. (i, toError (projl (fn i)))) [a..<k]\<rparr>"
  using assms
proof (induction "k - a" arbitrary: a le sl nt)
  case 0
  then have "a = k" by simp
  with 0 show ?case
    by (subst retry_loop.simps) simp
next
  case (Suc d)
  then have lt: "a < k" by simp
  with Suc.prems have "isl (fn a)" by simp
  then obtain e where e: "fn a = Inl e" by (cases "fn a") auto
  have ne: "a \<noteq> maxAttempts opts" using lt Suc.prems by simp
  have le': "a \<le> maxAttempts opts" using lt Suc.prems by simp
  have d: "d = k - (a + 1)" using Suc.hyps by simp
  have step: "retry_loop fn opts (a + 1) (Some (toError e)) ((a + 1) - 1)
                (sl @ [min (initialDelay opts * backoffMultiplier opts ^ (a - 1)) (maxDelay opts)])
                (nt @ [(a, toError e)]) =
           \<lparr>outcome = Inr v, invocations = k,
            sleeps = (sl @ [min (initialDelay opts * backoffMultiplier opts ^ (a - 1)) (maxDelay opts)])
               @ map (\<lambda>i. min (initialDelay opts * backoffMultiplier opts ^ (i - 1))
                                         (maxDelay opts)) [a + 1..<k],
            onRetry_calls = (nt @ [(a, toError e)]) @ map (\<lambda>i. (i, toError (projl (fn i)))) [a + 1..<k]\<rparr>"
    using Suc.prems lt by (intro Suc.hyps(1) d) auto
  have upt: "[a..<k] = a # [a + 1..<k]" using lt by (simp add: upt_rec)
  show ?case
    using Suc.prems(5) e ne le' step
    by (subst retry_loop.simps) (simp add: upt Let_def)
qed

lemma retry_loop_all_fail:
  assumes "\<forall>j. a \<le> j \<and> j \<le> maxAttempts opts \<longrightarrow> isl (fn j)"
    and "a \<le> maxAttempts opts" and "1 \<le> a"
  shows "retry_loop fn opts a le (a - 1) sl nt =
           \<lparr>outcome = Inl (toError (projl (fn (maxAttempts opts)))), invocations = maxAttempts opts,
            sleeps = sl @ map (\<lambda>i. min (initialDelay opts * backoffMultiplier opts ^ (i - 1))
                                         (maxDelay opts)) [a..<maxAttempts opts],
            onRetry_calls = nt @ map (\<lambda>i. (i, toError (projl (fn i)))) [a..<maxAttempts opts]\<rparr>"
  using assms
proof (induction "maxAttempts opts - a" arbitrary: a le sl nt)
  case 0
  then have eq: "a = maxAttempts opts" by simp
  with 0 have "isl (fn a)" by simp
  then obtain e where e: "fn a = Inl e" by (cases "fn a") auto
  with 0 eq show ?case
    by (subst retry_loop.simps) (auto simp: Let_def)
next
  case (Suc d)
  then have lt: "a < maxAttempts opts" by simp
  with Suc.prems have "isl (fn a)" by simp
  then obtain e where e: "fn a = Inl e" by (cases "fn a") auto
  have ne: "a \<noteq> maxAttempts opts" using lt by simp
  have le': "a \<le> maxAttempts opts" using lt by simp
  have d: "d = maxAttempts opts - (a + 1)" using Suc.hyps by simp
  have step: "retry_loop fn opts (a + 1) (Some (toError e)) ((a + 1) - 1)
                (sl @ [min (initialDelay opts * backoffMultiplier opts ^ (a - 1)) (maxDelay opts)])
                (nt @ [(a, toError e)]) =
           \<lparr>outcome = Inl (toError (projl (fn (maxAttempts opts)))), invocations = maxAttempts opts,
            sleeps = (sl @ [min (initialDelay opts * backoffMultiplier opts ^ (a - 1)) (maxDelay opts)])
               @ map (\<lambda>i. min (initialDelay opts * backoffMultiplier opts ^ (i - 1))
                                         (maxDelay opts)) [a + 1..<maxAttempts opts],
            onRetry_calls = (nt @ [(a, toError e)]) @ map (\<lambda>i. (i, toError (projl (fn i)))) [a + 1..<maxAttempts opts]\<rparr>"
    using Suc.prems lt by (intro Suc.hyps(1) d) auto
  have upt: "[a..<maxAttempts opts] = a # [a + 1..<maxAttempts opts]" using lt by (simp add: upt_rec)
  show ?case
    using Suc.prems(3) e ne le' step
    by (subst retry_loop.simps) (simp add: upt Let_def)
qed


lemma retry_cases:
  assumes n: "1 \<le> maxAttempts opts"
  shows "(\<exists>k v. 1 \<le> k \<and> k \<le> maxAttempts opts \<and> fn k = Inr v \<and> (\<forall>j. 1 \<le> j \<and> j < k \<longrightarrow> isl (fn j))
            \<and> retry fn opts =
                \<lparr>outcome = Inr v, invocations = k,
                 sleeps = map (\<lambda>i. min (initialDelay opts * backoffMultiplier opts ^ (i - 1))
                                         (maxDelay opts)) [1..<k],
                 onRetry_calls = map (\<lambda>i. (i, toError (projl (fn i)))) [1..<k]\<rparr>)
       \<or> ((\<forall>j. 1 \<le> j \<and> j \<le> maxAttempts opts \<longrightarrow> isl (fn j))
            \<and> retry fn opts =
                \<lparr>outcome = Inl (toError (projl (fn (maxAttempts opts)))),
                 invocations = maxAttempts opts,
                 sleeps = map (\<lambda>i. min (initialDelay opts * backoffMultiplier opts ^ (i - 1))
                                         (maxDelay opts)) [1..<maxAttempts opts],
                 onRetry_calls = map (\<lambda>i. (i, toError (projl (fn i)))) [1..<maxAttempts opts]\<rparr>)"
proof (cases "\<exists>k. 1 \<le> k \<and> k \<le> maxAttempts opts \<and> \<not> isl (fn k)")
  case True
  define k where "k = (LEAST k. 1 \<le> k \<and> k \<le> maxAttempts opts \<and> \<not> isl (fn k))"
  have k: "1 \<le> k \<and> k \<le> maxAttempts opts \<and> \<not> isl (fn k)"
    unfolding k_def using True by (rule LeastI_ex)
  have least: "\<And>j. 1 \<le> j \<and> j \<le> maxAttempts opts \<and> \<not> isl (fn j) \<Longrightarrow> k \<le> j"
    unfolding k_def by (rule Least_le)
  from k obtain v where v: "fn k = Inr v" by (cases "fn k") auto
  have before: "\<forall>j. 1 \<le> j \<and> j < k \<longrightarrow> isl (fn j)"
  proof (intro allI impI)
    fix j assume j: "1 \<le> j \<and> j < k"
    show "isl (fn j)"
    proof (rule ccontr)
      assume "\<not> isl (fn j)"
      with j k have "k \<le> j" by (intro least) simp
      with j show False by simp
    qed
  qed
  have "retry_loop fn opts 1 None (1 - 1) [] [] =
          \<lparr>outcome = Inr v, invocations = k,
           sleeps = [] @ map (\<lambda>i. min (initialDelay opts * backoffMultiplier opts ^ (i - 1))
                                         (maxDelay opts)) [1..<k],
           onRetry_calls = [] @ map (\<lambda>i. (i, toError (projl (fn i)))) [1..<k]\<rparr>"
    using v before k by (intro retry_loop_first_success) simp_all
  then show ?thesis
    using k v before by (auto simp: retry_def)
next
  case False
  then have all: "\<forall>j. 1 \<le> j \<and> j \<le> maxAttempts opts \<longrightarrow> isl (fn j)" by blast
  have "retry_loop fn opts 1 None (1 - 1) [] [] =
           \<lparr>outcome = Inl (toError (projl (fn (maxAttempts opts)))), invocations = maxAttempts opts,
            sleeps = [] @ map (\<lambda>i. min (initialDelay opts * backoffMultiplier opts ^ (i - 1))
                                         (maxDelay opts)) [1..<maxAttempts opts],
            onRetry_calls = [] @ map (\<lambda>i. (i, toError (projl (fn i)))) [1..<maxAttempts opts]\<rparr>"
    using all n by (intro retry_loop_all_fail) simp_all
  then show ?thesis
    using all by (simp add: retry_def)
qed

text \<open>
  Claim C10, as amended. For every function \<open>fn\<close> and every configuration with
  \<open>maxAttempts = n \<ge> 1\<close>: \<open>retry\<close> invokes \<open>fn\<close> at most \<open>n\<close> times; it returns
  the result of the first invocation that succeeds; when all \<open>n\<close> invocations fail it
  raises the error of the \<open>n\<close>-th invocation, as an \<^verbatim>\<open>Error\<close> object (a rejection
  value that is not one is wrapped, with its text as message); the delay before attempt
  \<open>k + 1\<close> is the minimum of \<open>initialDelay * backoffMultiplier ^ (k - 1)\<close> and
  \<open>maxDelay\<close>, so no delay exceeds \<open>maxDelay\<close>.
\<close>

theorem retry_contract:
  assumes n: "1 \<le> maxAttempts opts"
  shows "invocations (retry fn opts) \<le> maxAttempts opts
     \<and> (\<forall>k v. 1 \<le> k \<and> k \<le> maxAttempts opts \<and> fn k = Inr v \<and> (\<forall>j. 1 \<le> j \<and> j < k \<longrightarrow> isl (fn j))
          \<longrightarrow> outcome (retry fn opts) = Inr v \<and> invocations (retry fn opts) = k)
     \<and> ((\<forall>j. 1 \<le> j \<and> j \<le> maxAttempts opts \<longrightarrow> isl (fn j))
          \<longrightarrow> outcome (retry fn opts) = Inl (toError (projl (fn (maxAttempts opts))))
            \<and> invocations (retry fn opts) = maxAttempts opts)
     \<and> sleeps (retry fn opts) =
          map (\<lambda>k. min (initialDelay opts * backoffMultiplier opts ^ (k - 1)) (maxDelay opts))
            [1..<invocations (retry fn opts)]
     \<and> (\<forall>d \<in> set (sleeps (retry fn opts)). d \<le> maxDelay opts)"
proof -
  from retry_cases [OF n, of fn] show ?thesis
  proof (elim disjE exE conjE)
    fix k v
    assume k: "1 \<le> k" "k \<le> maxAttempts opts" "fn k = Inr v" "\<forall>j. 1 \<le> j \<and> j < k \<longrightarrow> isl (fn j)"
      and r: "retry fn opts =
                \<lparr>outcome = Inr v, invocations = k,
                 sleeps = map (\<lambda>i. min (initialDelay opts * backoffMultiplier opts ^ (i - 1))
                                         (maxDelay opts)) [1..<k],
                 onRetry_calls = map (\<lambda>i. (i, toError (projl (fn i)))) [1..<k]\<rparr>"
    have uniq: "\<And>k' v'. 1 \<le> k' \<and> k' \<le> maxAttempts opts \<and> fn k' = Inr v'
         \<and> (\<forall>j. 1 \<le> j \<and> j < k' \<longrightarrow> isl (fn j)) \<Longrightarrow> k' = k \<and> v' = v"
    proof -
      fix k' v'
      assume h: "1 \<le> k' \<and> k' \<le> maxAttempts opts \<and> fn k' = Inr v'
         \<and> (\<forall>j. 1 \<le> j \<and> j < k' \<longrightarrow> isl (fn j))"
      have "\<not> k' < k" using h k(4) by auto
      moreover have "\<not> k < k'" using h k(1,3) by auto
      ultimately have "k' = k" by simp
      with h k(3) show "k' = k \<and> v' = v" by simp
    qed
    have nofail: "\<not> (\<forall>j. 1 \<le> j \<and> j \<le> maxAttempts opts \<longrightarrow> isl (fn j))"
      using k by auto
    have i: "invocations (retry fn opts) = k" and o: "outcome (retry fn opts) = Inr v"
      and sl: "sleeps (retry fn opts) = map (\<lambda>i. min (initialDelay opts * backoffMultiplier opts ^ (i - 1))
                                         (maxDelay opts)) [1..<k]"
      by (simp_all add: r)
    have c1: "invocations (retry fn opts) \<le> maxAttempts opts" using i k(2) by simp
    have c2: "\<forall>k v. 1 \<le> k \<and> k \<le> maxAttempts opts \<and> fn k = Inr v \<and> (\<forall>j. 1 \<le> j \<and> j < k \<longrightarrow> isl (fn j))
          \<longrightarrow> outcome (retry fn opts) = Inr v \<and> invocations (retry fn opts) = k"
      using uniq i o by blast
    have c3: "(\<forall>j. 1 \<le> j \<and> j \<le> maxAttempts opts \<longrightarrow> isl (fn j))
          \<longrightarrow> outcome (retry fn opts) = Inl (toError (projl (fn (maxAttempts opts))))
            \<and> invocations (retry fn opts) = maxAttempts opts"
      using nofail by blast
    have c4: "sleeps (retry fn opts) =
          map (\<lambda>k. min (initialDelay opts * backoffMultiplier opts ^ (k - 1)) (maxDelay opts))
            [1..<invocations (retry fn opts)]"
      using sl i by simp
    have c5: "\<forall>d \<in> set (sleeps (retry fn opts)). d \<le> maxDelay opts"
      unfolding sl by (simp add: image_iff) 
    show ?thesis using c1 c2 c3 c4 c5 by blast
  next
    assume all: "\<forall>j. 1 \<le> j \<and> j \<le> maxAttempts opts \<longrightarrow> isl (fn j)"
      and r: "retry fn opts =
                \<lparr>outcome = Inl (toError (projl (fn (maxAttempts opts)))),
                 invocations = maxAttempts opts,
                 sleeps = map (\<lambda>i. min (initialDelay opts * backoffMultiplier opts ^ (i - 1))
                                         (maxDelay opts)) [1..<maxAttempts opts],
                 onRetry_calls = map (\<lambda>i. (i, toError (projl (fn i)))) [1..<maxAttempts opts]\<rparr>"
    have none: "\<And>k v. 1 \<le> k \<and> k \<le> maxAttempts opts \<and> fn k = Inr v \<Longrightarrow> False"
    proof -
      fix k v assume h: "1 \<le> k \<and> k \<le> maxAttempts opts \<and> fn k = Inr v"
      with all have "isl (fn k)" by blast
      with h show False by simp
    qed
    have i: "invocations (retry fn opts) = maxAttempts opts"
      and o: "outcome (retry fn opts) = Inl (toError (projl (fn (maxAttempts opts))))"
      and sl: "sleeps (retry fn opts) = map (\<lambda>i. min (initialDelay opts * backoffMultiplier opts ^ (i - 1))
                                         (maxDelay opts)) [1..<maxAttempts opts]"
      by (simp_all add: r)
    have c1: "invocations (retry fn opts) \<le> maxAttempts opts" using i by simp
    have c2: "\<forall>k v. 1 \<le> k \<and> k \<le> maxAttempts opts \<and> fn k = Inr v \<and> (\<forall>j. 1 \<le> j \<and> j < k \<longrightarrow> isl (fn j))
          \<longrightarrow> outcome (retry fn opts) = Inr v \<and> invocations (retry fn opts) = k"
      using none by blast
    have c3: "(\<forall>j. 1 \<le> j \<and> j \<le> maxAttempts opts \<longrightarrow> isl (fn j))
          \<longrightarrow> outcome (retry fn opts) = Inl (toError (projl (fn (maxAttempts opts))))
            \<and> invocations (retry fn opts) = maxAttempts opts"
      using i o by blast
    have c4: "sleeps (retry fn opts) =
          map (\<lambda>k. min (initialDelay opts * backoffMultiplier opts ^ (k - 1)) (maxDelay opts))
            [1..<invocations (retry fn opts)]"
      using sl i by simp
    have c5: "\<forall>d \<in> set (sleeps (retry fn opts)). d \<le> maxDelay opts"
      unfolding sl by (simp add: image_iff)
    show ?thesis using c1 c2 c3 c4 c5 by blast
  qed
qed

theorem retry_contract_witness:
  "outcome (retry flaky DEFAULT_OPTIONS) = Inr 7
   \<and> invocations (retry flaky DEFAULT_OPTIONS) = 3
   \<and> sleeps (retry flaky DEFAULT_OPTIONS) = [1000, 2000]
   \<and> outcome (retry always_down DEFAULT_OPTIONS) = Inl (ErrorObj ''down'')"
proof -
  have n: "1 \<le> maxAttempts DEFAULT_OPTIONS" by (simp add: DEFAULT_OPTIONS_def)
  have f3: "1 \<le> (3::nat) \<and> 3 \<le> maxAttempts DEFAULT_OPTIONS \<and> flaky 3 = Inr 7
      \<and> (\<forall>j. 1 \<le> j \<and> j < 3 \<longrightarrow> isl (flaky j))"
    by (simp add: DEFAULT_OPTIONS_def flaky_def)
  note c = retry_contract [OF n, of flaky]
  have a: "outcome (retry flaky DEFAULT_OPTIONS) = Inr 7
      \<and> invocations (retry flaky DEFAULT_OPTIONS) = 3"
    using c [THEN conjunct2, THEN conjunct1, rule_format, OF f3] .
  have "sleeps (retry flaky DEFAULT_OPTIONS) =
      map (\<lambda>k. min (initialDelay DEFAULT_OPTIONS * backoffMultiplier DEFAULT_OPTIONS ^ (k - 1))
                 (maxDelay DEFAULT_OPTIONS)) [1..<invocations (retry flaky DEFAULT_OPTIONS)]"
    using c [THEN conjunct2, THEN conjunct2, THEN conjunct2, THEN conjunct1] .
  also have "\<dots> = map (\<lambda>k. min (initialDelay DEFAULT_OPTIONS * backoffMultiplier DEFAULT_OPTIONS ^ (k - 1))
                 (maxDelay DEFAULT_OPTIONS)) [1, 2]"
    by (simp only: a upt_conv_Cons upt_conv_Nil) (simp add: upt_rec)
  also have "\<dots> = [1000, 2000]"
    by (simp add: DEFAULT_OPTIONS_def)
  finally have b: "sleeps (retry flaky DEFAULT_OPTIONS) = [1000, 2000]" .
  have all: "\<forall>j. 1 \<le> j \<and> j \<le> maxAttempts DEFAULT_OPTIONS \<longrightarrow> isl (always_down j)"
    by (simp add: always_down_def)
  have "outcome (retry always_down DEFAULT_OPTIONS)
      = Inl (toError (projl (always_down (maxAttempts DEFAULT_OPTIONS))))"
    using retry_contract [OF n, of always_down, THEN conjunct2, THEN conjunct2, THEN conjunct1,
      THEN mp, OF all, THEN conjunct1] .
  then have d: "outcome (retry always_down DEFAULT_OPTIONS) = Inl (ErrorObj ''down'')"
    by (simp add: toError_def always_down_def)
  from a b d show ?thesis by (simp only: simp_thms)
qed

text \<open>
  Claim C10 as stated fails where the function rejects with a value that is not an
  \<^verbatim>\<open>Error\<close>: with one attempt and a function that rejects with the string
  \<^verbatim>\<open>boom\<close>, what \<open>retry\<close> raises is not what the invocation raised.
\<close>

theorem retry_non_error_rejection:
  "outcome (retry rejects_boom (DEFAULT_OPTIONS\<lparr>maxAttempts := 1\<rparr>)) \<noteq> rejects_boom 1"
  unfolding retry_def
  by (subst retry_loop.simps) (simp add: DEFAULT_OPTIONS_def toError_def rejects_boom_def)

subsection \<open>Image selection\<close>

text \<open>
  Where the code and the contract agree: the Logseq function returns what the contract
  asks for unless the medium thumbnail of the latest version or of the first images entry
  is present, and the Obsidian function does so whenever the primary image has a
  candidate. Both return the large thumbnail of the primary image when it is present, and
  null for an entity without image members.
\<close>

lemma no_candidates: "filter truthy (candidates None) = []"
  by (simp add: candidates_def large_of_def original_url_of_def medium_of_def url_of_def
      truthy_def)

lemma extractImageUrl_agrees:
  assumes "\<not> truthy (medium_of (latest_image item))" and "\<not> truthy (medium_of (first_image item))"
  shows "extractImageUrl item = resolveImageUrl item"
proof (cases "item_images item")
  case None
  then have f: "first_image item = None" by (simp add: first_image_def)
  show ?thesis
    unfolding resolveImageUrl_def filter_append f no_candidates
    using assms(1) None by (simp add: extractImageUrl_def candidates_def)
next
  case (Some xs)
  show ?thesis
  proof (cases xs)
    case Nil
    with Some have f: "first_image item = None" by (simp add: first_image_def)
    show ?thesis
      unfolding resolveImageUrl_def filter_append f no_candidates
      using assms(1) Some Nil by (simp add: extractImageUrl_def candidates_def)
  next
    case (Cons firstImage rest)
    with Some have f: "first_image item = Some firstImage" by (simp add: first_image_def)
    show ?thesis
      using assms Some Cons
      by (simp add: extractImageUrl_def resolveImageUrl_def f candidates_def)
  qed
qed

lemma extractImageUrl_obsidian_primary:
  assumes "\<exists>x \<in> set (candidates (item_image item)). truthy x"
  shows "extractImageUrl_obsidian item = resolveImageUrl item"
  using assms
  by (auto simp: extractImageUrl_obsidian_def resolveImageUrl_def candidates_def)

lemma extractImageUrl_prefers_large:
  assumes "truthy (large_of (item_image item))"
  shows "extractImageUrl item = large_of (item_image item)"
    and "extractImageUrl_obsidian item = large_of (item_image item)"
  using assms by (simp_all add: extractImageUrl_def extractImageUrl_obsidian_def)

lemma extractImageUrl_no_image_members:
  assumes "item_image item = None" and "item_latest_version item = None"
    and "item_images item = None"
  shows "extractImageUrl item = None" and "extractImageUrl_obsidian item = None"
  using assms
  by (simp_all add: extractImageUrl_def extractImageUrl_obsidian_def large_of_def medium_of_def
      original_url_of_def url_of_def latest_image_def truthy_def)

text \<open>
  Claim C3. \<open>resolveImageUrl\<close> is to try the four candidates of the primary image, then
  the same four of the latest-version image, then the same four of the first entry of the
  images array, and to return null only when no candidate is present. The Logseq
  \<open>extractImageUrl\<close> leaves the medium thumbnail out of the second and the third group:
  for a screen whose only image member is the medium thumbnail of its latest version, or
  of its first images entry, it returns null. The Obsidian \<open>extractImageUrl\<close> has no
  second and third group at all: for a screen whose only image member is the original URL
  of its latest version it returns null.
\<close>

theorem extractImageUrl_misses_fallback_candidates:
  "resolveImageUrl (bare_screen\<lparr>item_latest_version := Some \<lparr>version_image = Some medium_only\<rparr>\<rparr>) = Some ''https://cdn/m.png''
   \<and> extractImageUrl (bare_screen\<lparr>item_latest_version := Some \<lparr>version_image = Some medium_only\<rparr>\<rparr>) = None
   \<and> extractImageUrl (bare_screen\<lparr>item_images := Some [medium_only]\<rparr>) = None
   \<and> resolveImageUrl (bare_screen\<lparr>item_latest_version := Some \<lparr>version_image = Some original_only\<rparr>\<rparr>) = Some ''https://cdn/o.png''
   \<and> extractImageUrl_obsidian (bare_screen\<lparr>item_latest_version := Some \<lparr>version_image = Some original_only\<rparr>\<rparr>) = None"
  by (simp add: resolveImageUrl_def extractImageUrl_def extractImageUrl_obsidian_def candidates_def
      first_image_def latest_image_def large_of_def medium_of_def original_url_of_def url_of_def
      truthy_def bare_screen_def medium_only_def original_only_def no_image_asset_def)

subsection \<open>Rendered content\<close>








lemma fields_image_children:
  "map (fst \<circ> Pair Image) xs = replicate (length xs) Image"
  by (induction xs) simp_all

lemma length_image_children: "length (image_children env item) \<le> 1"
  by (simp add: image_children_def Let_def split: option.splits)

lemma fields_screen_children:
  "map fst (screen_children env project fullScreen) =
     [DeepLink]
     @ (if truthy (item_description fullScreen) then [Description] else [])
     @ (if has_tags fullScreen then [Tags] else [])
     @ (if item_section fullScreen = None then [] else [SectionName])
     @ replicate (length (image_children env fullScreen)) Image"
  by (simp add: screen_children_def has_tags_def fields_image_children
      split: option.splits list.splits)

lemma screen_children_logseq_order:
  "sorted_wrt (<) (map logseq_rank (map fst (screen_children env project fullScreen)))"
proof -
  have "length (image_children env fullScreen) = 0 \<or> length (image_children env fullScreen) = 1"
    using length_image_children [of env fullScreen] by linarith
  then show ?thesis
    unfolding fields_screen_children by (elim disjE) simp_all
qed




subsection \<open>Upsert of a block that exists\<close>

lemma get_prop_set_prop:
  "get_prop (set_prop k v ps) k' = (if k' = k then Some v else get_prop ps k')"
  by (induction ps) (auto simp: get_prop_def)

lemma findBlockByZeplinId_iff:
  "findBlockByZeplinId zeplinId g \<noteq> None \<longleftrightarrow>
     (\<exists>b \<in> set (graph_blocks g). get_prop (block_properties b) ''zeplin-id'' = Some (PStr zeplinId))"
proof -
  have "findBlockByZeplinId zeplinId g \<noteq> None \<longleftrightarrow> query_zeplin_id zeplinId g \<noteq> []"
    by (simp add: findBlockByZeplinId_def split: list.splits)
  also have "\<dots> \<longleftrightarrow>
     (\<exists>b \<in> set (graph_blocks g). get_prop (block_properties b) ''zeplin-id'' = Some (PStr zeplinId))"
    by (simp add: query_zeplin_id_def filter_empty_conv)
  finally show ?thesis .
qed

lemma findBlockByZeplinId_member:
  assumes "findBlockByZeplinId zeplinId g = Some u"
  shows "\<exists>b \<in> set (graph_blocks g). block_uuid b = u"
proof -
  from assms obtain b rest where q: "query_zeplin_id zeplinId g = b # rest" and u: "block_uuid b = u"
    by (auto simp: findBlockByZeplinId_def split: list.splits)
  have "b \<in> set (query_zeplin_id zeplinId g)" unfolding q by simp
  then have "b \<in> set (graph_blocks g)" by (simp add: query_zeplin_id_def)
  with u show ?thesis by blast
qed

lemma getBlock_found:
  "\<exists>b \<in> set (graph_blocks g). block_uuid b = u \<Longrightarrow> \<exists>b. getBlock u g = Some b"
  by (cases "getBlock u g") (auto simp: getBlock_def find_None_iff)

lemma blocks_host_updateBlock:
  "graph_blocks (host_updateBlock u content g) =
     map (\<lambda>b. if block_uuid b = u then b\<lparr>block_content := content\<rparr> else b) (graph_blocks g)"
  by (simp add: host_updateBlock_def)

lemma uuids_host_updateBlock:
  "map block_uuid (graph_blocks (host_updateBlock u content g)) = map block_uuid (graph_blocks g)"
  by (simp add: blocks_host_updateBlock comp_def if_distrib [of block_uuid] cong: if_cong)

lemma host_updateBlock_keeps_uuid:
  assumes "\<exists>b \<in> set (graph_blocks g). block_uuid b = u"
  shows "\<exists>b \<in> set (graph_blocks (host_updateBlock u content g)). block_uuid b = u"
proof -
  from assms have "u \<in> set (map block_uuid (graph_blocks g))" by auto
  then have "u \<in> set (map block_uuid (graph_blocks (host_updateBlock u content g)))"
    by (simp only: uuids_host_updateBlock)
  then show ?thesis by auto
qed

lemma upsertBlock_existing_result:
  assumes "findBlockByZeplinId zeplinId g = Some u"
  shows "upsertBlock parent content zeplinId properties children g =
     (Some u,
      g\<lparr>graph_blocks :=
          map (\<lambda>b. if block_uuid b = u
                    then b\<lparr>block_content := content,
                           block_properties :=
                             (if properties = None then block_properties b
                              else set_prop ''zeplin-updated'' (PNum (graph_now g))
                                     (block_properties b))\<rparr>
                    else b) (graph_blocks g)\<rparr>)"
proof -
  have m: "\<exists>b \<in> set (graph_blocks g). block_uuid b = u"
    using assms by (rule findBlockByZeplinId_member)
  let ?g1 = "host_updateBlock u content g"
  obtain b1 where b1: "getBlock u ?g1 = Some b1"
    using getBlock_found [OF host_updateBlock_keeps_uuid [OF m]] by blast
  show ?thesis
  proof (cases properties)
    case None
    then show ?thesis
      using assms by (simp add: upsertBlock_def updateBlock_def host_updateBlock_def)
  next
    case (Some ps)
    have "upsertBlockProperty u ''zeplin-updated'' (PNum (Date_now ?g1)) ?g1 =
        g\<lparr>graph_blocks :=
          map (\<lambda>b. if block_uuid b = u
                    then b\<lparr>block_content := content,
                           block_properties :=
                              set_prop ''zeplin-updated'' (PNum (graph_now g)) (block_properties b)\<rparr>
                    else b) (graph_blocks g)\<rparr>"
      using b1 by (simp add: upsertBlockProperty_def Date_now_def host_updateBlock_def comp_def
          if_distrib [of "\<lambda>b. block_uuid b"] cong: if_cong)
    with Some b1 show ?thesis
      using assms by (simp add: upsertBlock_def updateBlock_def)
  qed
qed

text \<open>
  Claim C9. When \<open>upsertBlock\<close> finds a block with the given remote id, it returns the
  uuid of that block; no block is added (neither the new block nor any of the children
  supplied), the pages are untouched, every block keeps its uuid and its parent, a block
  with another uuid is unchanged, the block found has the new content, and no property
  other than \<^verbatim>\<open>zeplin-updated\<close> changes its value; in particular \<^verbatim>\<open>zeplin-synced\<close>
  is neither set nor refreshed.
\<close>

theorem upsertBlock_existing_frame:
  assumes "findBlockByZeplinId zeplinId g = Some u"
  shows "fst (upsertBlock parent content zeplinId properties children g) = Some u
     \<and> graph_pages (snd (upsertBlock parent content zeplinId properties children g)) = graph_pages g
     \<and> graph_next (snd (upsertBlock parent content zeplinId properties children g)) = graph_next g
     \<and> length (graph_blocks (snd (upsertBlock parent content zeplinId properties children g)))
         = length (graph_blocks g)
     \<and> (\<forall>i < length (graph_blocks g).
           block_uuid (graph_blocks (snd (upsertBlock parent content zeplinId properties children g)) ! i)
             = block_uuid (graph_blocks g ! i)
         \<and> block_parent (graph_blocks (snd (upsertBlock parent content zeplinId properties children g)) ! i)
             = block_parent (graph_blocks g ! i)
         \<and> (block_uuid (graph_blocks g ! i) \<noteq> u \<longrightarrow>
              graph_blocks (snd (upsertBlock parent content zeplinId properties children g)) ! i
                = graph_blocks g ! i)
         \<and> (block_uuid (graph_blocks g ! i) = u \<longrightarrow>
              block_content (graph_blocks (snd (upsertBlock parent content zeplinId properties children g)) ! i)
                = content)
         \<and> (\<forall>k. k \<noteq> ''zeplin-updated'' \<longrightarrow>
              get_prop (block_properties
                 (graph_blocks (snd (upsertBlock parent content zeplinId properties children g)) ! i)) k
                = get_prop (block_properties (graph_blocks g ! i)) k)
         \<and> get_prop (block_properties
                 (graph_blocks (snd (upsertBlock parent content zeplinId properties children g)) ! i))
               ''zeplin-synced''
                = get_prop (block_properties (graph_blocks g ! i)) ''zeplin-synced'')"
proof -
  let ?f = "\<lambda>b. b\<lparr>block_content := content,
                     block_properties :=
                       (if properties = None then block_properties b
                        else set_prop ''zeplin-updated'' (PNum (graph_now g)) (block_properties b))\<rparr>"
  let ?g' = "snd (upsertBlock parent content zeplinId properties children g)"
  note r = upsertBlock_existing_result [OF assms, of parent content properties children]
  have res: "fst (upsertBlock parent content zeplinId properties children g) = Some u"
    by (simp add: r)
  have blocks: "graph_blocks ?g' = map (\<lambda>b. if block_uuid b = u then ?f b else b) (graph_blocks g)"
    by (simp add: r)
  have pages: "graph_pages ?g' = graph_pages g" and nxt: "graph_next ?g' = graph_next g"
    by (simp_all add: r)
  have len: "length (graph_blocks ?g') = length (graph_blocks g)"
    by (simp add: blocks)
  have each: "\<forall>i < length (graph_blocks g).
       graph_blocks ?g' ! i =
         (if block_uuid (graph_blocks g ! i) = u then ?f (graph_blocks g ! i) else graph_blocks g ! i)"
    by (simp add: blocks)
  have frame: "\<forall>i < length (graph_blocks g).
           block_uuid (graph_blocks ?g' ! i) = block_uuid (graph_blocks g ! i)
         \<and> block_parent (graph_blocks ?g' ! i) = block_parent (graph_blocks g ! i)
         \<and> (block_uuid (graph_blocks g ! i) \<noteq> u \<longrightarrow> graph_blocks ?g' ! i = graph_blocks g ! i)
         \<and> (block_uuid (graph_blocks g ! i) = u \<longrightarrow> block_content (graph_blocks ?g' ! i) = content)
         \<and> (\<forall>k. k \<noteq> ''zeplin-updated'' \<longrightarrow>
              get_prop (block_properties (graph_blocks ?g' ! i)) k
                = get_prop (block_properties (graph_blocks g ! i)) k)
         \<and> get_prop (block_properties (graph_blocks ?g' ! i)) ''zeplin-synced''
                = get_prop (block_properties (graph_blocks g ! i)) ''zeplin-synced''"
  proof (intro allI impI)
    fix i assume i: "i < length (graph_blocks g)"
    have e: "graph_blocks ?g' ! i =
         (if block_uuid (graph_blocks g ! i) = u then ?f (graph_blocks g ! i) else graph_blocks g ! i)"
      using each i by blast
    show "block_uuid (graph_blocks ?g' ! i) = block_uuid (graph_blocks g ! i)
         \<and> block_parent (graph_blocks ?g' ! i) = block_parent (graph_blocks g ! i)
         \<and> (block_uuid (graph_blocks g ! i) \<noteq> u \<longrightarrow> graph_blocks ?g' ! i = graph_blocks g ! i)
         \<and> (block_uuid (graph_blocks g ! i) = u \<longrightarrow> block_content (graph_blocks ?g' ! i) = content)
         \<and> (\<forall>k. k \<noteq> ''zeplin-updated'' \<longrightarrow>
              get_prop (block_properties (graph_blocks ?g' ! i)) k
                = get_prop (block_properties (graph_blocks g ! i)) k)
         \<and> get_prop (block_properties (graph_blocks ?g' ! i)) ''zeplin-synced''
                = get_prop (block_properties (graph_blocks g ! i)) ''zeplin-synced''"
      unfolding e by (simp add: get_prop_set_prop)
  qed
  from res pages nxt len frame show ?thesis by blast
qed

theorem upsertBlock_existing_frame_witness:
  "findBlockByZeplinId ''c1'' synced_graph = Some 3
   \<and> fst (upsertBlock 2 ''**Button** (Forms)'' ''c1'' (Some [(''zeplin-type'', PStr ''component'')])
          [BlockCreateInput ''A push button'' (Some []) []] synced_graph) = Some 3
   \<and> length (graph_blocks (snd (upsertBlock 2 ''**Button** (Forms)'' ''c1''
          (Some [(''zeplin-type'', PStr ''component'')])
          [BlockCreateInput ''A push button'' (Some []) []] synced_graph))) = 2"
proof -
  have f: "findBlockByZeplinId ''c1'' synced_graph = Some 3"
    by (simp add: findBlockByZeplinId_def query_zeplin_id_def synced_graph_def get_prop_def)
  note t = upsertBlock_existing_frame [OF f, of 2 "''**Button** (Forms)''"
      "Some [(''zeplin-type'', PStr ''component'')]" "[BlockCreateInput ''A push button'' (Some []) []]"]
  have l: "length (graph_blocks synced_graph) = 2" by (simp add: synced_graph_def)
  from t have "fst (upsertBlock 2 ''**Button** (Forms)'' ''c1'' (Some [(''zeplin-type'', PStr ''component'')])
          [BlockCreateInput ''A push button'' (Some []) []] synced_graph) = Some 3" by blast
  moreover from t have "length (graph_blocks (snd (upsertBlock 2 ''**Button** (Forms)'' ''c1''
          (Some [(''zeplin-type'', PStr ''component'')])
          [BlockCreateInput ''A push button'' (Some []) []] synced_graph))) = length (graph_blocks synced_graph)"
    by blast
  ultimately show ?thesis using f l by simp
qed

subsection \<open>One local unit per remote id\<close>

text \<open>
  The upsert itself keeps one block per remote id: when the parent exists, no block
  carries the id yet and the children do not carry it either, a first \<open>upsertBlock\<close>
  with content \<open>contentA\<close> and a second with content \<open>contentB\<close> leave exactly one
  block tagged with the id, under the parent, with content \<open>contentB\<close>, and both calls
  return its uuid.
\<close>

lemma query_new_block:
  "query_zeplin_id zeplinId (snd (new_block parent content ps g)) =
     query_zeplin_id zeplinId g
     @ (if get_prop ps ''zeplin-id'' = Some (PStr zeplinId)
        then [\<lparr>block_uuid = graph_next g, block_parent = parent, block_content = content,
               block_properties = ps\<rparr>]
        else [])"
  by (simp add: new_block_def query_zeplin_id_def Let_def)

lemma query_insertBlock_untagged:
  assumes "get_prop (case properties of None \<Rightarrow> [] | Some ps \<Rightarrow> ps) ''zeplin-id'' \<noteq> Some (PStr zeplinId)"
  shows "query_zeplin_id zeplinId (snd (insertBlock parent content properties g)) =
     query_zeplin_id zeplinId g"
proof (cases "getBlock parent g")
  case None
  then show ?thesis by (simp add: insertBlock_def)
next
  case (Some pb)
  have "snd (insertBlock parent content properties g) =
      snd (new_block parent content (case properties of None \<Rightarrow> [] | Some ps \<Rightarrow> ps) g)"
    using Some by (simp add: insertBlock_def split: prod.splits)
  then show ?thesis using assms by (simp add: query_new_block)
qed

lemma query_createInput_untagged:
  "untagged zeplinId inp \<Longrightarrow>
     query_zeplin_id zeplinId (snd (createInput parent inp g)) = query_zeplin_id zeplinId g"
  and query_createInputs_untagged:
  "\<forall>child \<in> set inps. untagged zeplinId child \<Longrightarrow>
     query_zeplin_id zeplinId (createInputs parent inps g) = query_zeplin_id zeplinId g"
proof (induction parent inp g and parent inps g rule: createInput_createInputs.induct)
  case (1 parentBlockUuid content properties children g)
  have t: "get_prop (case properties of None \<Rightarrow> [] | Some ps \<Rightarrow> ps) ''zeplin-id'' \<noteq> Some (PStr zeplinId)"
    and ch: "\<forall>child \<in> set children. untagged zeplinId child"
    using "1.prems" by simp_all
  note q = query_insertBlock_untagged [OF t, of parentBlockUuid content g]
  show ?case
  proof (cases "insertBlock parentBlockUuid content properties g")
    case (Pair r g')
    show ?thesis
    proof (cases r)
      case None
      with Pair q show ?thesis by simp
    next
      case (Some block)
      have "query_zeplin_id zeplinId (createInputs (block_uuid block) children g')
          = query_zeplin_id zeplinId g'"
        using "1.IH" Pair Some ch by simp
      with Pair Some q show ?thesis by simp
    qed
  qed
next
  case (2 parentBlockUuid g)
  then show ?case by simp
next
  case (3 parentBlockUuid child rest g)
  then show ?case by simp
qed

lemma upsertBlock_new_result:
  assumes p: "getBlock parent g = Some pb" and q: "query_zeplin_id zeplinId g = []"
    and ch: "\<forall>child \<in> set children. untagged zeplinId child"
  shows "fst (upsertBlock parent content zeplinId properties children g) = Some (graph_next g)
     \<and> query_zeplin_id zeplinId (snd (upsertBlock parent content zeplinId properties children g)) =
        [\<lparr>block_uuid = graph_next g, block_parent = parent, block_content = content,
          block_properties =
            set_prop ''zeplin-synced'' (PNum (Date_now g))
              (set_prop ''zeplin-id'' (PStr zeplinId)
                 (case properties of None \<Rightarrow> [] | Some ps \<Rightarrow> ps))\<rparr>]"
proof -
  let ?full = "set_prop ''zeplin-synced'' (PNum (Date_now g))
              (set_prop ''zeplin-id'' (PStr zeplinId)
                 (case properties of None \<Rightarrow> [] | Some ps \<Rightarrow> ps))"
  let ?b = "\<lparr>block_uuid = graph_next g, block_parent = parent, block_content = content,
          block_properties = ?full\<rparr>"
  let ?g' = "snd (new_block parent content ?full g)"
  have tag: "get_prop ?full ''zeplin-id'' = Some (PStr zeplinId)"
    by (simp add: get_prop_set_prop)
  have ins: "insertBlock parent content (Some ?full) g = (Some ?b, ?g')"
    using p by (simp add: insertBlock_def new_block_def Let_def)
  have q': "query_zeplin_id zeplinId ?g' = [?b]"
    using q tag by (simp add: query_new_block)
  have none: "findBlockByZeplinId zeplinId g = None"
    using q by (simp add: findBlockByZeplinId_def)
  have up: "upsertBlock parent content zeplinId properties children g =
      (Some (graph_next g), createInputs (graph_next g) children ?g')"
    using none ins by (simp add: upsertBlock_def createBlock_def Let_def)
  have "query_zeplin_id zeplinId (createInputs (graph_next g) children ?g') = [?b]"
    using query_createInputs_untagged [OF ch] q' by simp
  with up show ?thesis by simp
qed

lemma query_after_update:
  assumes "query_zeplin_id zeplinId g = [b]"
  shows "query_zeplin_id zeplinId
      (g\<lparr>graph_blocks :=
          map (\<lambda>b. if block_uuid b = u
                    then b\<lparr>block_content := content,
                           block_properties :=
                             (if properties = None then block_properties b
                              else set_prop ''zeplin-updated'' v (block_properties b))\<rparr>
                    else b) (graph_blocks g)\<rparr>) =
     [if block_uuid b = u
      then b\<lparr>block_content := content,
              block_properties :=
                (if properties = None then block_properties b
                 else set_prop ''zeplin-updated'' v (block_properties b))\<rparr>
      else b]"
proof -
  let ?F = "\<lambda>b. if block_uuid b = u
                    then b\<lparr>block_content := content,
                           block_properties :=
                             (if properties = None then block_properties b
                              else set_prop ''zeplin-updated'' v (block_properties b))\<rparr>
                    else b"
  let ?T = "\<lambda>b. get_prop (block_properties b) ''zeplin-id'' = Some (PStr zeplinId)"
  have keep: "\<And>b. ?T (?F b) = ?T b"
    by (simp add: get_prop_set_prop)
  have "filter ?T (map ?F (graph_blocks g)) = map ?F (filter ?T (graph_blocks g))"
    unfolding filter_map comp_def keep ..
  then show ?thesis
    using assms by (simp add: query_zeplin_id_def)
qed

lemma upsertBlock_twice:
  assumes p: "getBlock parent g = Some pb" and q: "query_zeplin_id zeplinId g = []"
    and ch: "\<forall>child \<in> set children. untagged zeplinId child"
  shows "\<exists>b. query_zeplin_id zeplinId
            (snd (upsertBlock parent contentB zeplinId properties' children'
               (snd (upsertBlock parent contentA zeplinId properties children g)))) = [b]
          \<and> block_content b = contentB \<and> block_parent b = parent
          \<and> fst (upsertBlock parent contentB zeplinId properties' children'
               (snd (upsertBlock parent contentA zeplinId properties children g))) = Some (block_uuid b)
          \<and> fst (upsertBlock parent contentA zeplinId properties children g) = Some (block_uuid b)"
proof -
  let ?g1 = "snd (upsertBlock parent contentA zeplinId properties children g)"
  let ?b = "\<lparr>block_uuid = graph_next g, block_parent = parent, block_content = contentA,
          block_properties =
            set_prop ''zeplin-synced'' (PNum (Date_now g))
              (set_prop ''zeplin-id'' (PStr zeplinId)
                 (case properties of None \<Rightarrow> [] | Some ps \<Rightarrow> ps))\<rparr>"
  note first = upsertBlock_new_result [OF p q ch, of contentA properties]
  then have r1: "fst (upsertBlock parent contentA zeplinId properties children g) = Some (graph_next g)"
    and q1: "query_zeplin_id zeplinId ?g1 = [?b]" by simp_all
  have f: "findBlockByZeplinId zeplinId ?g1 = Some (graph_next g)"
    using q1 by (simp add: findBlockByZeplinId_def)
  note second = upsertBlock_existing_result [OF f, of parent contentB properties' children']
  have r2: "fst (upsertBlock parent contentB zeplinId properties' children' ?g1) = Some (graph_next g)"
    by (simp add: second)
  have q2: "query_zeplin_id zeplinId (snd (upsertBlock parent contentB zeplinId properties' children' ?g1)) =
      [?b\<lparr>block_content := contentB,
          block_properties :=
            (if properties' = None then block_properties ?b
             else set_prop ''zeplin-updated'' (PNum (graph_now ?g1)) (block_properties ?b))\<rparr>]"
    unfolding second snd_conv using query_after_update [OF q1, where u = "graph_next g" and content = contentB
        and properties = properties' and v = "PNum (graph_now ?g1)"] by simp
  show ?thesis
    unfolding q2 r2 r1 by simp
qed

text \<open>
  Claim C1. A second run of \<open>syncProject\<close> on the same project is to find the unit of
  each remote entity and never to create a second unit with the same remote id. The
  project of \<open>shop_api\<close> has one screen \<^verbatim>\<open>s1\<close> and one colour \<^verbatim>\<open>c1\<close>. After the
  first run one block carries the id of the colour and one the id of the screen; after the
  second run two blocks carry each id: colours, text styles and the index entry of a
  screen are written with \<open>createBlock\<close>, which never looks for an existing block,
  where components are written with \<open>upsertBlock\<close> (\<open>upsertBlock_twice\<close>).
\<close>

theorem resync_duplicates_tagged_blocks:
  "fst first_sync = Inr () \<and> fst second_sync = Inr ()
   \<and> map block_uuid (query_zeplin_id ''c1'' (snd first_sync)) = [14]
   \<and> map block_uuid (query_zeplin_id ''s1'' (snd first_sync)) = [11]
   \<and> map block_uuid (query_zeplin_id ''c1'' (snd second_sync)) = [14, 18]
   \<and> map block_uuid (query_zeplin_id ''s1'' (snd second_sync)) = [11, 15]"
  by code_simp

subsection \<open>Remote failures\<close>




lemma bindE_Inl:
  "m g = (Inl e, g') \<Longrightarrow> bindE m f g = (Inl e, g')"
  by (simp add: bindE_def)

lemma bindE_Inr:
  "m g = (Inr x, g') \<Longrightarrow> bindE m f g = f x g'"
  by (simp add: bindE_def)





lemma ensurePage_ok: "\<exists>u g'. ensurePage pageName properties g = (Inr u, g')"
  by (simp add: ensurePage_def createPage_def Let_def split: option.splits)


lemma createProjectStructure_ok:
  "\<exists>g'. createProjectStructure env project g = (Inr (), g')"
proof -
  let ?n = "defaultNamespace (env_config env) @ ''/'' @ project_name project"
  obtain u1 g1 where 1: "ensurePage ?n
                  (Some [(''zeplin-id'', PStr (project_id project)),
                         (''zeplin-type'', PStr ''project''),
                         (''zeplin-platform'', PStr (project_platform project)),
                         (''zeplin-synced'', PNum (Date_now g))]) g = (Inr u1, g1)"
    using ensurePage_ok by blast
  obtain u2 g2 where 2: "ensurePage (?n @ ''/Components'') None g1 = (Inr u2, g2)"
    using ensurePage_ok by blast
  obtain u3 g3 where 3: "ensurePage (?n @ ''/Screens'') None g2 = (Inr u3, g3)"
    using ensurePage_ok by blast
  obtain u4 g4 where 4: "ensurePage (?n @ ''/Design Tokens'') None g3 = (Inr u4, g4)"
    using ensurePage_ok by blast
  show ?thesis
    using 1 2 3 4 by (simp add: createProjectStructure_def Let_def bindE_def returnE_def)
qed














text \<open>
  Pages are never removed during a run, so the pages \<open>createProjectStructure\<close> has made
  are there when a later phase asks for their first block; a phase whose requests all
  succeed therefore succeeds, and a phase stops with the error of its first failing
  request.
\<close>

lemma getPage_iff: "getPage name g \<noteq> None \<longleftrightarrow> name \<in> page_names g"
  by (auto simp: getPage_def page_names_def find_None_iff)

lemma page_names_new_block: "page_names (snd (new_block parent content ps g)) = page_names g"
  by (simp add: new_block_def page_names_def Let_def)

lemma page_names_insertBlock: "page_names (snd (insertBlock parent content ps g)) = page_names g"
  by (simp add: insertBlock_def new_block_def page_names_def Let_def split: option.splits)

lemma page_names_appendBlockInPage:
  "page_names (snd (appendBlockInPage name content g)) = page_names g"
  by (simp add: appendBlockInPage_def new_block_def page_names_def Let_def split: option.splits)

lemma page_names_host_updateBlock: "page_names (host_updateBlock u content g) = page_names g"
  by (simp add: host_updateBlock_def page_names_def)

lemma page_name_updated:
  "map page_name (map (\<lambda>p. if page_uuid p = u
            then p\<lparr>page_properties := set_prop k v (page_properties p)\<rparr> else p) ps)
     = map page_name ps"
  by (induction ps) simp_all

lemma page_names_upsertBlockProperty: "page_names (upsertBlockProperty u k v g) = page_names g"
proof (cases "getBlock u g")
  case None
  have "set (map page_name (map (\<lambda>p. if page_uuid p = u
            then p\<lparr>page_properties := set_prop k v (page_properties p)\<rparr> else p) (graph_pages g)))
     = set (map page_name (graph_pages g))"
    by (simp only: page_name_updated)
  with None show ?thesis
    by (simp add: upsertBlockProperty_def page_names_def)
next
  case (Some b)
  then show ?thesis
    by (simp add: upsertBlockProperty_def page_names_def)
qed

lemma page_names_createPage:
  "page_names (snd (createPage name ps g)) = insert name (page_names g)"
  by (simp add: createPage_def new_block_def page_names_def Let_def)

lemma page_names_fold_upsert:
  "page_names (fold (\<lambda>(key, v). upsertBlockProperty u key v) ps g) = page_names g"
  by (induction ps arbitrary: g) (auto simp: page_names_upsertBlockProperty)

lemma page_names_ensurePage:
  "page_names (snd (ensurePage name ps g)) = insert name (page_names g)"
proof (cases "getPage name g")
  case None
  obtain r g' where c: "createPage name ps g = (r, g')" by (cases "createPage name ps g")
  then obtain page where r: "r = Some page" by (auto simp: createPage_def Let_def)
  have "page_names g' = insert name (page_names g)"
    using page_names_createPage [of name ps g] c by simp
  with None c r show ?thesis by (simp add: ensurePage_def)
next
  case (Some page)
  then have "name \<in> page_names g" using getPage_iff [of name g] by simp
  then have "insert name (page_names g) = page_names g" by blast
  with Some show ?thesis
    by (simp add: ensurePage_def page_names_fold_upsert split: option.splits)
qed

lemma page_names_createInput:
  "page_names (snd (createInput parent inp g)) = page_names g"
  and page_names_createInputs:
  "page_names (createInputs parent inps g) = page_names g"
proof (induction parent inp g and parent inps g rule: createInput_createInputs.induct)
  case (1 parentBlockUuid content properties children g)
  show ?case
  proof (cases "insertBlock parentBlockUuid content properties g")
    case (Pair r g')
    have g': "page_names g' = page_names g"
      using page_names_insertBlock [of parentBlockUuid content properties g] Pair by simp
    show ?thesis
    proof (cases r)
      case None
      with Pair g' show ?thesis by simp
    next
      case (Some block)
      with Pair g' "1.IH" show ?thesis by simp
    qed
  qed
next
  case (2 parentBlockUuid g)
  then show ?case by simp
next
  case (3 parentBlockUuid child rest g)
  then show ?case by simp
qed

lemma page_names_upsertBlock:
  "page_names (snd (upsertBlock parent content zeplinId properties children g)) = page_names g"
proof (cases "findBlockByZeplinId zeplinId g")
  case None
  then show ?thesis
    by (simp add: upsertBlock_def createBlock_def Let_def page_names_createInput
        del: createInput.simps)
next
  case (Some u)
  show ?thesis
    unfolding upsertBlock_existing_result [OF Some] by (simp add: page_names_def)
qed

lemma page_names_getPageFirstBlockUuid:
  "page_names (snd (getPageFirstBlockUuid name g)) = page_names g"
proof -
  obtain b g' where a: "appendBlockInPage name [] g = (b, g')"
    by (cases "appendBlockInPage name [] g")
  then have "page_names g' = page_names g"
    using page_names_appendBlockInPage [of name "[]" g] by simp
  with a show ?thesis
    by (simp add: getPageFirstBlockUuid_def split: option.splits list.splits)
qed

lemma getPageFirstBlockUuid_found:
  assumes "name \<in> page_names g"
  shows "\<exists>u. fst (getPageFirstBlockUuid name g) = Some u"
proof -
  from assms obtain page where p: "getPage name g = Some page"
    using getPage_iff [of name g] by auto
  show ?thesis
  proof (cases "getPageBlocksTree name g")
    case Nil
    with p show ?thesis
      by (simp add: getPageFirstBlockUuid_def appendBlockInPage_def new_block_def Let_def)
  next
    case (Cons b bs)
    with p show ?thesis by (simp add: getPageFirstBlockUuid_def)
  qed
qed

lemma keeps_pagesI: "(\<And>g. page_names g \<subseteq> page_names (snd (m g))) \<Longrightarrow> keeps_pages m"
  by (simp add: keeps_pages_def)

lemma keeps_pagesD: "keeps_pages m \<Longrightarrow> page_names g \<subseteq> page_names (snd (m g))"
  by (simp add: keeps_pages_def)

lemma keeps_pages_returnE: "keeps_pages (returnE x)"
  by (simp add: keeps_pages_def returnE_def)

lemma keeps_pages_throwE: "keeps_pages (throwE e)"
  by (simp add: keeps_pages_def throwE_def)

lemma keeps_pages_await_remote: "keeps_pages (await_remote r)"
  by (simp add: keeps_pages_def await_remote_def)

lemma keeps_pages_await_host:
  "(\<And>g. page_names (snd (op g)) = page_names g) \<Longrightarrow> keeps_pages (await_host op)"
  by (simp add: keeps_pages_def await_host_def split: prod.splits)
    (metis snd_conv subset_refl)

lemma keeps_pages_bindE:
  assumes "keeps_pages m" and "\<And>x. keeps_pages (f x)"
  shows "keeps_pages (bindE m f)"
proof (rule keeps_pagesI)
  fix g
  obtain r g' where mg: "m g = (r, g')" by (cases "m g")
  have 1: "page_names g \<subseteq> page_names g'"
    using keeps_pagesD [OF assms(1), of g] mg by simp
  show "page_names g \<subseteq> page_names (snd (bindE m f g))"
  proof (cases r)
    case (Inl e)
    with mg 1 show ?thesis by (simp add: bindE_def)
  next
    case (Inr x)
    have "page_names g' \<subseteq> page_names (snd (f x g'))"
      using keeps_pagesD [OF assms(2)] .
    with Inr mg 1 show ?thesis by (simp add: bindE_def)
  qed
qed

lemma keeps_pages_for_each:
  assumes "\<And>x. keeps_pages (body x)"
  shows "keeps_pages (for_each xs body)"
  by (induction xs) (simp_all add: keeps_pages_returnE keeps_pages_bindE assms)

lemma keeps_pages_when_run: "keeps_pages m \<Longrightarrow> keeps_pages (when_run c m)"
  by (simp add: when_run_def keeps_pages_returnE)

lemma keeps_pages_ensurePage: "keeps_pages (ensurePage name ps)"
  by (rule keeps_pagesI) (auto simp: page_names_ensurePage)

lemma keeps_pages_syncComponent: "keeps_pages (syncComponent env project component uuid)"
  unfolding syncComponent_def Let_def
  by (intro keeps_pages_bindE keeps_pages_await_remote keeps_pages_await_host keeps_pages_returnE
      page_names_upsertBlock)

lemma keeps_pages_syncComponents: "keeps_pages (syncComponents env project)"
  unfolding syncComponents_def Let_def
  by (intro keeps_pages_bindE keeps_pages_await_remote keeps_pages_await_host
      page_names_getPageFirstBlockUuid)
    (auto split: option.splits intro!: keeps_pages_throwE keeps_pages_for_each
      keeps_pages_syncComponent)

lemma keeps_pages_syncScreenAsPage: "keeps_pages (syncScreenAsPage env project screen uuid)"
  unfolding syncScreenAsPage_def Let_def
  by (intro keeps_pages_bindE keeps_pages_await_remote keeps_pages_ensurePage
      keeps_pages_await_host page_names_getPageFirstBlockUuid)
    (auto split: option.splits simp: createBlock_def createBlockTree_def page_names_createInput
      page_names_createInputs simp del: createInput.simps
      intro!: keeps_pages_throwE keeps_pages_bindE keeps_pages_await_host keeps_pages_returnE)

lemma keeps_pages_syncScreens: "keeps_pages (syncScreens env project)"
  unfolding syncScreens_def Let_def
  by (intro keeps_pages_bindE keeps_pages_await_remote keeps_pages_ensurePage
      keeps_pages_await_host page_names_getPageFirstBlockUuid)
    (auto split: option.splits intro!: keeps_pages_throwE keeps_pages_for_each
      keeps_pages_syncScreenAsPage)

lemma pages_after_createProjectStructure:
  "{defaultNamespace (env_config env) @ ''/'' @ project_name project @ ''/Components'',
    defaultNamespace (env_config env) @ ''/'' @ project_name project @ ''/Screens'',
    defaultNamespace (env_config env) @ ''/'' @ project_name project @ ''/Design Tokens''}
   \<subseteq> page_names (snd (createProjectStructure env project g))"
proof -
  let ?n = "defaultNamespace (env_config env) @ ''/'' @ project_name project"
  obtain u1 g1 where 1: "ensurePage ?n
                  (Some [(''zeplin-id'', PStr (project_id project)),
                         (''zeplin-type'', PStr ''project''),
                         (''zeplin-platform'', PStr (project_platform project)),
                         (''zeplin-synced'', PNum (Date_now g))]) g = (Inr u1, g1)"
    using ensurePage_ok by blast
  obtain u2 g2 where 2: "ensurePage (?n @ ''/Components'') None g1 = (Inr u2, g2)"
    using ensurePage_ok by blast
  obtain u3 g3 where 3: "ensurePage (?n @ ''/Screens'') None g2 = (Inr u3, g3)"
    using ensurePage_ok by blast
  obtain u4 g4 where 4: "ensurePage (?n @ ''/Design Tokens'') None g3 = (Inr u4, g4)"
    using ensurePage_ok by blast
  have r: "createProjectStructure env project g = (Inr (), g4)"
    using 1 2 3 4 by (simp add: createProjectStructure_def Let_def bindE_def returnE_def)
  have p2: "page_names g2 = insert (?n @ ''/Components'') (page_names g1)"
    using page_names_ensurePage [of "?n @ ''/Components''" None g1] 2 by simp
  have p3: "page_names g3 = insert (?n @ ''/Screens'') (page_names g2)"
    using page_names_ensurePage [of "?n @ ''/Screens''" None g2] 3 by simp
  have p4: "page_names g4 = insert (?n @ ''/Design Tokens'') (page_names g3)"
    using page_names_ensurePage [of "?n @ ''/Design Tokens''" None g3] 4 by simp
  show ?thesis
    unfolding r snd_conv p4 p3 p2 by (simp add: append_assoc)
qed

lemma for_each_ok:
  assumes "\<And>x g. x \<in> set xs \<Longrightarrow> fst (body x g) = Inr ()"
  shows "fst (for_each xs body g) = Inr ()"
  using assms
proof (induction xs arbitrary: g)
  case Nil
  then show ?case by (simp add: returnE_def)
next
  case (Cons x xs)
  obtain g' where b: "body x g = (Inr (), g')"
    using Cons.prems [of x g] by (cases "body x g") auto
  have "fst (for_each xs body g') = Inr ()"
    using Cons.IH Cons.prems by simp
  with b show ?case by (simp add: bindE_def)
qed


lemma syncComponent_ok:
  assumes "get_component (env_api env) (project_id project) (item_id component) = Inr full"
  shows "fst (syncComponent env project component uuid g) = Inr ()"
  using assms
  by (simp add: syncComponent_def bindE_def await_remote_def await_host_def getComponent_def
      client_get_def returnE_def Let_def split: prod.splits)


lemma syncComponents_unfold:
  assumes "get_components (env_api env) (project_id project) = Inr components"
    and "defaultNamespace (env_config env) @ ''/'' @ project_name project @ ''/Components''
           \<in> page_names g"
  shows "\<exists>uuid g'. fst (syncComponents env project g) =
           fst (for_each components (\<lambda>component. syncComponent env project component uuid) g')"
proof -
  let ?n = "defaultNamespace (env_config env) @ ''/'' @ project_name project @ ''/Components''"
  obtain r g' where f: "getPageFirstBlockUuid ?n g = (r, g')"
    by (cases "getPageFirstBlockUuid ?n g")
  obtain uuid where "r = Some uuid"
    using getPageFirstBlockUuid_found [OF assms(2)] f by auto
  with f assms(1) have "syncComponents env project g =
      for_each components (\<lambda>component. syncComponent env project component uuid) g'"
    by (simp add: syncComponents_def bindE_def await_remote_def await_host_def getComponents_def
        client_get_def Let_def)
  then show ?thesis by metis
qed

lemma syncComponents_fetch_fails:
  assumes "get_components (env_api env) (project_id project) = Inl ae"
  shows "fst (syncComponents env project g) = Inl (handleError ae)"
  using assms
  by (simp add: syncComponents_def bindE_def await_remote_def getComponents_def client_get_def)

lemma syncComponents_ok:
  assumes "get_components (env_api env) (project_id project) = Inr components"
    and "\<forall>component \<in> set components.
           \<exists>full. get_component (env_api env) (project_id project) (item_id component) = Inr full"
    and "defaultNamespace (env_config env) @ ''/'' @ project_name project @ ''/Components''
           \<in> page_names g"
  shows "fst (syncComponents env project g) = Inr ()"
proof -
  obtain uuid g' where u: "fst (syncComponents env project g) =
      fst (for_each components (\<lambda>component. syncComponent env project component uuid) g')"
    using syncComponents_unfold [OF assms(1,3)] by blast
  show ?thesis
    unfolding u using assms(2) by (intro for_each_ok) (auto intro: syncComponent_ok)
qed



lemma syncScreenAsPage_ok:
  assumes "get_screen (env_api env) (project_id project) (item_id screen) = Inr fullScreen"
  shows "fst (syncScreenAsPage env project screen uuid g) = Inr ()"
proof -
  let ?n = "defaultNamespace (env_config env) @ ''/'' @ project_name project
                 @ ''/Screens/'' @ item_name fullScreen"
  let ?ps = "Some [(''zeplin-id'', PStr (item_id fullScreen)),
                              (''zeplin-type'', PStr ''screen''),
                              (''zeplin-updated'', PNum (item_updated fullScreen)),
                              (''zeplin-url'', PStr (''https://app.zeplin.io/project/''
                                 @ project_id project @ ''/screen/'' @ item_id fullScreen))]"
  obtain pageUuid g1 where e: "ensurePage ?n ?ps g = (Inr pageUuid, g1)"
    using ensurePage_ok by blast
  have "?n \<in> page_names g1"
    using page_names_ensurePage [of ?n ?ps g] e by simp
  then obtain blockUuid where "fst (getPageFirstBlockUuid ?n g1) = Some blockUuid"
    using getPageFirstBlockUuid_found by blast
  then obtain g2 where f: "getPageFirstBlockUuid ?n g1 = (Some blockUuid, g2)"
    by (cases "getPageFirstBlockUuid ?n g1") auto
  show ?thesis
    using assms e f
    by (simp add: syncScreenAsPage_def bindE_def await_remote_def await_host_def getScreen_def
        client_get_def returnE_def Let_def split: prod.splits)
qed

lemma syncScreens_unfold:
  assumes "get_screens (env_api env) (project_id project) = Inr screens"
  shows "\<exists>uuid g'. fst (syncScreens env project g) =
           fst (for_each screens (\<lambda>screen. syncScreenAsPage env project screen uuid) g')"
proof -
  let ?n = "defaultNamespace (env_config env) @ ''/'' @ project_name project @ ''/Screens''"
  obtain u g1 where e: "ensurePage ?n None g = (Inr u, g1)"
    using ensurePage_ok by blast
  have "?n \<in> page_names g1"
    using page_names_ensurePage [of ?n None g] e by simp
  then obtain uuid where "fst (getPageFirstBlockUuid ?n g1) = Some uuid"
    using getPageFirstBlockUuid_found by blast
  then obtain g2 where f: "getPageFirstBlockUuid ?n g1 = (Some uuid, g2)"
    by (cases "getPageFirstBlockUuid ?n g1") auto
  have "syncScreens env project g =
      for_each screens (\<lambda>screen. syncScreenAsPage env project screen uuid) g2"
    using assms e f
    by (simp add: syncScreens_def bindE_def await_remote_def await_host_def getScreens_def
        client_get_def Let_def)
  then show ?thesis by metis
qed


lemma syncScreens_ok:
  assumes "get_screens (env_api env) (project_id project) = Inr screens"
    and "\<forall>screen \<in> set screens.
           \<exists>full. get_screen (env_api env) (project_id project) (item_id screen) = Inr full"
  shows "fst (syncScreens env project g) = Inr ()"
proof -
  obtain uuid g' where u: "fst (syncScreens env project g) =
      fst (for_each screens (\<lambda>screen. syncScreenAsPage env project screen uuid) g')"
    using syncScreens_unfold [OF assms(1)] by blast
  show ?thesis
    unfolding u using assms(2) by (intro for_each_ok) (auto intro: syncScreenAsPage_ok)
qed



lemma sync_colors_ok:
  assumes "get_colors (env_api env) (project_id project) = Inr colors"
  shows "fst (sync_colors env project uuid g) = Inr ()"
proof -
  obtain r g1 where c: "createBlock uuid (''## Colors ('' @ digits10 (length colors) @ '')'')
      None [] g = (r, g1)"
    by (cases "createBlock uuid (''## Colors ('' @ digits10 (length colors) @ '')'') None [] g")
  have "fst (for_each colors (\<lambda>color.
       (let colorName = (if truthy (color_name color) then the (color_name color) else ''Unnamed'');
            hexColor = rgbaToHex (color_r color) (color_g color) (color_b color) (color_a color)
        in bindE (await_host (createBlock uuid (colorName @ '': `'' @ hexColor @ ''`'')
                    (Some [(''zeplin-id'', PStr (color_id color)), (''zeplin-type'', PStr ''color'')])
                    [])) (\<lambda>_. returnE ()))) g1) = Inr ()"
    by (rule for_each_ok)
      (simp add: Let_def bindE_def await_host_def returnE_def split: prod.splits)
  with assms c show ?thesis
    by (simp add: sync_colors_def bindE_def await_remote_def await_host_def getColors_def
        client_get_def)
qed


lemma sync_text_styles_ok:
  assumes "get_text_styles (env_api env) (project_id project) = Inr textStyles"
  shows "fst (sync_text_styles env project uuid g) = Inr ()"
proof -
  obtain r g1 where c: "createBlock uuid
      (''## Text Styles ('' @ digits10 (length textStyles) @ '')'') None [] g = (r, g1)"
    by (cases "createBlock uuid (''## Text Styles ('' @ digits10 (length textStyles) @ '')'')
        None [] g")
  have "fst (for_each textStyles (\<lambda>style.
       (let styleInfo = style_name style @ '': '' @ font_family style @ '' ''
              @ digits10 (font_size style) @ ''px / '' @ digits10 (font_weight style)
        in bindE (await_host (createBlock uuid styleInfo
                    (Some [(''zeplin-id'', PStr (style_id style)),
                           (''zeplin-type'', PStr ''text-style'')]) [])) (\<lambda>_. returnE ()))) g1) = Inr ()"
    by (rule for_each_ok)
      (simp add: Let_def bindE_def await_host_def returnE_def split: prod.splits)
  with assms c show ?thesis
    by (simp add: sync_text_styles_def bindE_def await_remote_def await_host_def
        getTextStyles_def client_get_def)
qed

lemma syncDesignTokens_unfold:
  assumes "defaultNamespace (env_config env) @ ''/'' @ project_name project @ ''/Design Tokens''
           \<in> page_names g"
  shows "\<exists>uuid g'. syncDesignTokens env project g =
      bindE (when_run (number_of_colors project > 0) (sync_colors env project uuid)) (\<lambda>_.
             when_run (number_of_text_styles project > 0) (sync_text_styles env project uuid)) g'"
proof -
  let ?n = "defaultNamespace (env_config env) @ ''/'' @ project_name project @ ''/Design Tokens''"
  obtain uuid where "fst (getPageFirstBlockUuid ?n g) = Some uuid"
    using getPageFirstBlockUuid_found [OF assms] by blast
  then obtain g' where f: "getPageFirstBlockUuid ?n g = (Some uuid, g')"
    by (cases "getPageFirstBlockUuid ?n g") auto
  have "syncDesignTokens env project g =
      bindE (when_run (number_of_colors project > 0) (sync_colors env project uuid)) (\<lambda>_.
             when_run (number_of_text_styles project > 0) (sync_text_styles env project uuid)) g'"
    using f by (simp add: syncDesignTokens_def Let_def bindE_def await_host_def)
  then show ?thesis by blast
qed

lemma colors_phase_ok:
  assumes "colors_ok (env_api env) project"
  shows "\<exists>g'. when_run (number_of_colors project > 0) (sync_colors env project uuid) g = (Inr (), g')"
proof (cases "number_of_colors project > 0")
  case True
  with assms obtain colors where "get_colors (env_api env) (project_id project) = Inr colors"
    by (auto simp: colors_ok_def)
  then have "fst (sync_colors env project uuid g) = Inr ()" by (rule sync_colors_ok)
  with True show ?thesis
    by (cases "sync_colors env project uuid g") (simp add: when_run_def)
next
  case False
  then show ?thesis by (simp add: when_run_def returnE_def)
qed



lemma syncDesignTokens_ok:
  assumes "defaultNamespace (env_config env) @ ''/'' @ project_name project @ ''/Design Tokens''
           \<in> page_names g"
    and "colors_ok (env_api env) project"
    and "number_of_text_styles project = 0
         \<or> (\<exists>textStyles. get_text_styles (env_api env) (project_id project) = Inr textStyles)"
  shows "fst (syncDesignTokens env project g) = Inr ()"
proof -
  obtain uuid g' where u: "syncDesignTokens env project g =
      bindE (when_run (number_of_colors project > 0) (sync_colors env project uuid)) (\<lambda>_.
             when_run (number_of_text_styles project > 0) (sync_text_styles env project uuid)) g'"
    using syncDesignTokens_unfold [OF assms(1)] by blast
  obtain g1 where c: "when_run (number_of_colors project > 0) (sync_colors env project uuid) g'
      = (Inr (), g1)"
    using colors_phase_ok [OF assms(2)] by blast
  have "fst (when_run (number_of_text_styles project > 0) (sync_text_styles env project uuid) g1)
      = Inr ()"
  proof (cases "number_of_text_styles project > 0")
    case True
    with assms(3) obtain textStyles where
      "get_text_styles (env_api env) (project_id project) = Inr textStyles" by auto
    then have "fst (sync_text_styles env project uuid g1) = Inr ()" by (rule sync_text_styles_ok)
    with True show ?thesis by (simp add: when_run_def)
  next
    case False
    then show ?thesis by (simp add: when_run_def returnE_def)
  qed
  then show ?thesis
    unfolding u using c by (simp add: bindE_def)
qed

lemma components_phase_ok:
  assumes "components_ok (env_api env) project" and "components_page env project \<in> page_names g"
  shows "\<exists>g'. when_run (number_of_components project > 0) (syncComponents env project) g = (Inr (), g')
               \<and> page_names g \<subseteq> page_names g'"
proof (cases "number_of_components project > 0")
  case True
  with assms(1) obtain components where
    c: "get_components (env_api env) (project_id project) = Inr components"
    and a: "\<forall>component \<in> set components.
           \<exists>full. get_component (env_api env) (project_id project) (item_id component) = Inr full"
    by (auto simp: components_ok_def)
  have "fst (syncComponents env project g) = Inr ()"
    using c a assms(2) unfolding components_page_def by (rule syncComponents_ok)
  moreover have "page_names g \<subseteq> page_names (snd (syncComponents env project g))"
    using keeps_pages_syncComponents by (rule keeps_pagesD)
  ultimately show ?thesis
    using True by (cases "syncComponents env project g") (simp add: when_run_def)
next
  case False
  then show ?thesis by (simp add: when_run_def returnE_def)
qed

lemma screens_phase_ok:
  assumes "screens_ok (env_api env) project"
  shows "\<exists>g'. when_run (number_of_screens project > 0) (syncScreens env project) g = (Inr (), g')
               \<and> page_names g \<subseteq> page_names g'"
proof (cases "number_of_screens project > 0")
  case True
  with assms(1) obtain screens where
    c: "get_screens (env_api env) (project_id project) = Inr screens"
    and a: "\<forall>screen \<in> set screens.
           \<exists>full. get_screen (env_api env) (project_id project) (item_id screen) = Inr full"
    by (auto simp: screens_ok_def)
  have "fst (syncScreens env project g) = Inr ()"
    using c a by (rule syncScreens_ok)
  moreover have "page_names g \<subseteq> page_names (snd (syncScreens env project g))"
    using keeps_pages_syncScreens by (rule keeps_pagesD)
  ultimately show ?thesis
    using True by (cases "syncScreens env project g") (simp add: when_run_def)
next
  case False
  then show ?thesis by (simp add: when_run_def returnE_def)
qed

lemma syncProject_unfold:
  assumes "get_project (env_api env) projectId = Inr project"
  shows "\<exists>g1. components_page env project \<in> page_names g1
           \<and> tokens_page env project \<in> page_names g1
           \<and> syncProject env projectId g =
               bindE (when_run (number_of_components project > 0) (syncComponents env project)) (\<lambda>_.
               bindE (when_run (number_of_screens project > 0) (syncScreens env project)) (\<lambda>_.
               syncDesignTokens env project)) g1"
proof -
  obtain g1 where s: "createProjectStructure env project g = (Inr (), g1)"
    using createProjectStructure_ok by blast
  have p: "components_page env project \<in> page_names g1" "tokens_page env project \<in> page_names g1"
    using pages_after_createProjectStructure [of env project g] s
    by (simp_all add: components_page_def tokens_page_def)
  have "syncProject env projectId g =
               bindE (when_run (number_of_components project > 0) (syncComponents env project)) (\<lambda>_.
               bindE (when_run (number_of_screens project > 0) (syncScreens env project)) (\<lambda>_.
               syncDesignTokens env project)) g1"
    using assms s
    by (simp add: syncProject_def syncProject_body_def bindE_def await_remote_def getProject_def
        client_get_def split: prod.splits sum.splits)
  with p show ?thesis by blast
qed



lemma syncProject_screens_phase:
  assumes "get_project (env_api env) projectId = Inr project"
    and "components_ok (env_api env) project"
  shows "\<exists>g2. tokens_page env project \<in> page_names g2
           \<and> syncProject env projectId g =
               bindE (when_run (number_of_screens project > 0) (syncScreens env project)) (\<lambda>_.
               syncDesignTokens env project) g2"
proof -
  obtain g1 where p: "components_page env project \<in> page_names g1"
    and t: "tokens_page env project \<in> page_names g1"
    and u: "syncProject env projectId g =
               bindE (when_run (number_of_components project > 0) (syncComponents env project)) (\<lambda>_.
               bindE (when_run (number_of_screens project > 0) (syncScreens env project)) (\<lambda>_.
               syncDesignTokens env project)) g1"
    using syncProject_unfold [OF assms(1)] by blast
  obtain g2 where c: "when_run (number_of_components project > 0) (syncComponents env project) g1
      = (Inr (), g2)" and m: "page_names g1 \<subseteq> page_names g2"
    using components_phase_ok [OF assms(2) p] by blast
  have "syncProject env projectId g =
               bindE (when_run (number_of_screens project > 0) (syncScreens env project)) (\<lambda>_.
               syncDesignTokens env project) g2"
    unfolding u using c by (simp add: bindE_def)
  with t m show ?thesis by blast
qed

lemma syncProject_tokens_phase:
  assumes "get_project (env_api env) projectId = Inr project"
    and "components_ok (env_api env) project" and "screens_ok (env_api env) project"
  shows "\<exists>g3. tokens_page env project \<in> page_names g3
           \<and> syncProject env projectId g = syncDesignTokens env project g3"
proof -
  obtain g2 where t: "tokens_page env project \<in> page_names g2"
    and u: "syncProject env projectId g =
               bindE (when_run (number_of_screens project > 0) (syncScreens env project)) (\<lambda>_.
               syncDesignTokens env project) g2"
    using syncProject_screens_phase [OF assms(1,2)] by blast
  obtain g3 where c: "when_run (number_of_screens project > 0) (syncScreens env project) g2
      = (Inr (), g3)" and m: "page_names g2 \<subseteq> page_names g3"
    using screens_phase_ok [OF assms(3)] by blast
  have "syncProject env projectId g = syncDesignTokens env project g3"
    unfolding u using c by (simp add: bindE_def)
  with t m show ?thesis by blast
qed





lemma syncProject_succeeds:
  assumes "get_project (env_api env) projectId = Inr project"
    and "components_ok (env_api env) project" and "screens_ok (env_api env) project"
    and "colors_ok (env_api env) project"
    and "number_of_text_styles project = 0
         \<or> (\<exists>textStyles. get_text_styles (env_api env) (project_id project) = Inr textStyles)"
  shows "fst (syncProject env projectId g) = Inr ()"
proof -
  obtain g3 where t: "tokens_page env project \<in> page_names g3"
    and u: "syncProject env projectId g = syncDesignTokens env project g3"
    using syncProject_tokens_phase [OF assms(1,2,3)] by blast
  show ?thesis
    unfolding u using t assms(4,5) unfolding tokens_page_def
    by (rule syncDesignTokens_ok)
qed




subsection \<open>Inline images when the fetch fails\<close>

lemma downloadAndFormatImage_inline_failure:
  assumes "imageStorage config = Inline" and "http_get_image net imageUrl = Inl error"
  shows "downloadAndFormatImage config net imageUrl itemName = None"
  using assms
  by (simp add: downloadAndFormatImage_def downloadAndFormatImage_try_def downloadImage_def
      truthy_def)

text \<open>
  Claim C4. With image storage \<^verbatim>\<open>inline\<close> and a failing image request the unit of the
  item is still to be created, with a direct-URL image reference in its content, and the
  run is not to abort. \<open>downloadImage\<close> catches the failure and returns null, so the
  \<^verbatim>\<open>catch\<close> handler of \<open>downloadAndFormatImage\<close> with its fallback to the direct URL
  never runs and the result is null: the run succeeds and the block of the component is
  created, but it has no child block, so no image reference at all.
\<close>

theorem inline_fetch_failure_drops_image: "extractImageUrl pictured_button = Some ''https://cdn/o.png''
   \<and> http_get_image offline ''https://cdn/o.png'' = Inl (ErrorObj ''Network Error'')
   \<and> downloadAndFormatImage (env_config inline_offline_button_env) offline ''https://cdn/o.png''
        ''Button'' = None
   \<and> fst inline_offline_sync = Inr ()
   \<and> map block_content (query_zeplin_id ''c1'' (snd inline_offline_sync)) = [''**Button**'']
   \<and> map block_uuid (query_zeplin_id ''c1'' (snd inline_offline_sync)) = [9]
   \<and> filter (\<lambda>b. block_parent b = 9) (graph_blocks (snd inline_offline_sync)) = []"
  by code_simp

end
